theory Spec2Isabelle
  imports Main
begin

section \<open>JavaScript values\<close>

text \<open>
  Error objects are told apart by their class only where the source does so
  (\<^verbatim>\<open>error instanceof SyntaxError\<close>); each carries its message.
\<close>

datatype js_error = SyntaxError string | TypeError string | Error string

text \<open>
  The values that travel through the pipeline as \<^verbatim>\<open>unknown\<close>: raw inputs, validated
  values and the opaque raw errors of the validator adapter. A plain object is an
  association list in property-insertion order. Numbers are kept to the integers.
\<close>

datatype jsval =
    JUndefined
  | JNull
  | JBool bool
  | JNum int
  | JStr string
  | JArr "jsval list"
  | JObj "(string \<times> jsval) list"
  | JErr js_error

type_synonym jsrec = "(string \<times> jsval) list"

text \<open>\<^verbatim>\<open>obj[k] = v\<close> on a plain object: an existing property keeps its place.\<close>

fun set_prop :: "string \<Rightarrow> jsval \<Rightarrow> jsrec \<Rightarrow> jsrec" where
  "set_prop k v [] = [(k, v)]"
| "set_prop k v ((k', v') # r) =
     (if k' = k then (k, v) # r else (k', v') # set_prop k v r)"

section \<open>Validation types (validation-types.ts)\<close>

datatype validation_part = Params | Query | Body

record validation_issue =
  part :: validation_part
  issue_path :: "string list"
  message :: string
  code :: "string option"

text \<open>A schema is opaque to the core; it is only handed to the validator adapter.\<close>

datatype schema = Schema string

text \<open>
  \<^verbatim>\<open>ValidateResult\<close>: \<^verbatim>\<open>{ ok: true, value }\<close> or \<^verbatim>\<open>{ ok: false, issues, error? }\<close>; an absent
  \<^verbatim>\<open>error\<close> is \<open>JUndefined\<close>, which is what the source tests for.
\<close>

datatype validate_result =
    ValidateOk jsval
  | ValidateErr "validation_issue list" jsval

type_synonym validator = "schema \<Rightarrow> jsval \<Rightarrow> validation_part \<Rightarrow> validate_result"

record request_schemas =
  schemas_params :: "schema option"
  schemas_query :: "schema option"
  schemas_body :: "schema option"

record raw_values =
  params :: jsrec
  query :: jsrec
  body :: jsval

datatype input_state =
    InputOk jsval jsval jsval
  | InputErr
      (failed: "validation_part list")
      (issues: "validation_issue list")
      (received: raw_values)
      (errors: "(validation_part \<times> jsval) list option")

section \<open>Requests, contexts, routes (route.ts)\<close>

text \<open>
  The body of a request as the core can observe it: \<^verbatim>\<open>request.body\<close> is null, or
  \<^verbatim>\<open>request.text()\<close> resolves to a text, or it rejects (a consumed or broken stream).
\<close>

datatype body_source = NoBody | BodyText string | BodyFails js_error

record request =
  req_method :: string
  req_url :: string
  req_body :: body_source

text \<open>
  \<^verbatim>\<open>Context\<close>. The locals are a dictionary from names to facts, so
  \<^verbatim>\<open>{ ...a, ...b }\<close> on locals is \<open>a ++ b\<close>.
\<close>

type_synonym locals_map = "string \<rightharpoonup> jsval"

record ctx =
  request :: request
  raw :: raw_values
  input :: input_state
  locals :: locals_map

datatype response_body = TextBody string | JsonBody jsval

record response =
  status :: nat
  resp_body :: response_body

datatype guard_result = Allow "locals_map option" | Deny response

text \<open>
  Guards, handlers and hooks are user code: functions of what they are given, which
  return, or throw an error object.
\<close>

type_synonym guard_fn = "ctx \<Rightarrow> js_error + guard_result"

type_synonym handler_fn = "ctx \<Rightarrow> js_error + response"

record handler =
  route_method :: string
  route_path :: string
  resolve :: handler_fn
  guards :: "guard_fn list option"
  schemas :: "request_schemas option"

text \<open>
  The field \<open>resolve\<close> is \<^verbatim>\<open>Handler.handler\<close> and \<open>schemas\<close> is \<^verbatim>\<open>Handler.request\<close>.

  What the host runtime provides: \<^verbatim>\<open>URLPattern.exec\<close> for a path template on a URL
  (the groups of the pathname, or no match), the pairs of \<^verbatim>\<open>new URL(url).searchParams\<close>,
  and \<^verbatim>\<open>JSON.parse\<close>, which returns a value or throws a SyntaxError with a message.
\<close>

record host =
  URLPattern_exec :: "string \<Rightarrow> string \<Rightarrow> jsrec option"
  URL_searchParams :: "string \<Rightarrow> (string \<times> string) list"
  JSON_parse :: "string \<Rightarrow> string + jsval"

text \<open>
  What the pipeline itself does to the outside, in order: reading the body stream and
  calling the adapter, the guards, the handler and the hooks.
\<close>

datatype event =
    BodyRead
  | ValidatorCalled schema jsval validation_part
  | GuardCalled nat ctx
  | HandlerCalled ctx
  | OnRequestCalled
  | OnResponseCalled ctx response
  | OnErrorCalled js_error ctx

section \<open>Raw extraction (internal/validation.ts)\<close>

text \<open>
  One iteration of the loop of \<^verbatim>\<open>parseQuery\<close>. The lookup \<^verbatim>\<open>result[key]\<close> is modelled on
  the own properties of the result, kept in insertion order: keys that a plain object
  inherits from its prototype (\<^verbatim>\<open>toString\<close>, \<^verbatim>\<open>constructor\<close>) and the place integer-like
  keys take in the enumeration order are outside the model.
\<close>

fun query_step :: "jsrec \<Rightarrow> string \<times> string \<Rightarrow> jsrec" where
  "query_step result (key, v) =
     (case map_of result key of
        None \<Rightarrow> set_prop key (JStr v) result
      | Some JUndefined \<Rightarrow> set_prop key (JStr v) result
      | Some (JArr existing) \<Rightarrow> set_prop key (JArr (existing @ [JStr v])) result
      | Some existing \<Rightarrow> set_prop key (JArr [existing, JStr v]) result)"

definition parseQuery :: "host \<Rightarrow> string \<Rightarrow> jsrec" where
  "parseQuery h url = foldl query_step [] (URL_searchParams h url)"

record parse_result =
  parsed :: jsval
  error :: "js_error option"

text \<open>
  The \<^verbatim>\<open>try\<close> block of \<^verbatim>\<open>parseBody\<close>: \<^verbatim>\<open>request.text()\<close>, the test for the empty text,
  \<^verbatim>\<open>JSON.parse\<close>. \<open>Inl\<close> is a thrown value.
\<close>

definition parseBody_try :: "host \<Rightarrow> request \<Rightarrow> js_error + parse_result" where
  "parseBody_try h req =
     (case req_body req of
        BodyFails e \<Rightarrow> Inl e
      | NoBody \<Rightarrow> Inr \<lparr>parsed = JUndefined, error = None\<rparr>
      | BodyText txt \<Rightarrow>
          (if txt = [] then Inr \<lparr>parsed = JUndefined, error = None\<rparr>
           else (case JSON_parse h txt of
                   Inl m \<Rightarrow> Inl (SyntaxError m)
                 | Inr v \<Rightarrow> Inr \<lparr>parsed = v, error = None\<rparr>)))"

fun is_SyntaxError :: "js_error \<Rightarrow> bool" where
  "is_SyntaxError (SyntaxError m) = True"
| "is_SyntaxError e = False"

definition parseBody :: "host \<Rightarrow> request \<Rightarrow> (js_error + parse_result) \<times> event list" where
  "parseBody h req =
     (if req_body req = NoBody then (Inr \<lparr>parsed = JUndefined, error = None\<rparr>, [])
      else
        (case parseBody_try h req of
           Inr r \<Rightarrow> (Inr r, [BodyRead])
         | Inl e \<Rightarrow>
             (Inr \<lparr>parsed = JUndefined,
                   error = Some (if is_SyntaxError e then e else SyntaxError ''Invalid JSON'')\<rparr>,
              [BodyRead])))"

section \<open>Validation execution (internal/validation.ts)\<close>

text \<open>The local variables of \<^verbatim>\<open>validateInputs\<close>, with the calls made to the adapter so far.\<close>

record vstate =
  v_failed :: "validation_part list"
  v_issues :: "validation_issue list"
  v_errors :: "(validation_part \<times> jsval) list"
  validatedParams :: jsval
  validatedQuery :: jsval
  validatedBody :: jsval
  v_calls :: "event list"

text \<open>\<^verbatim>\<open>errors[p] = e\<close> on the object of raw errors.\<close>

fun set_error :: "validation_part \<Rightarrow> jsval \<Rightarrow> (validation_part \<times> jsval) list
    \<Rightarrow> (validation_part \<times> jsval) list" where
  "set_error p e [] = [(p, e)]"
| "set_error p e ((p', e') # r) =
     (if p' = p then (p, e) # r else (p', e') # set_error p e r)"

text \<open>The three blocks of the function, in the order of the source.\<close>

definition validate_params_block :: "validator \<Rightarrow> request_schemas \<Rightarrow> raw_values
    \<Rightarrow> vstate \<Rightarrow> vstate" where
  "validate_params_block v s rawv st =
     (case schemas_params s of
        None \<Rightarrow> st
      | Some sc \<Rightarrow>
          (case v sc (JObj (params rawv)) Params of
             ValidateOk val \<Rightarrow>
               st\<lparr>validatedParams := val,
                  v_calls := v_calls st @ [ValidatorCalled sc (JObj (params rawv)) Params]\<rparr>
           | ValidateErr iss e \<Rightarrow>
               st\<lparr>v_failed := v_failed st @ [Params],
                  v_issues := v_issues st @ iss,
                  v_errors := (if e \<noteq> JUndefined then set_error Params e (v_errors st)
                               else v_errors st),
                  v_calls := v_calls st @ [ValidatorCalled sc (JObj (params rawv)) Params]\<rparr>))"

definition validate_query_block :: "validator \<Rightarrow> request_schemas \<Rightarrow> raw_values
    \<Rightarrow> vstate \<Rightarrow> vstate" where
  "validate_query_block v s rawv st =
     (case schemas_query s of
        None \<Rightarrow> st
      | Some sc \<Rightarrow>
          (case v sc (JObj (query rawv)) Query of
             ValidateOk val \<Rightarrow>
               st\<lparr>validatedQuery := val,
                  v_calls := v_calls st @ [ValidatorCalled sc (JObj (query rawv)) Query]\<rparr>
           | ValidateErr iss e \<Rightarrow>
               st\<lparr>v_failed := v_failed st @ [Query],
                  v_issues := v_issues st @ iss,
                  v_errors := (if e \<noteq> JUndefined then set_error Query e (v_errors st)
                               else v_errors st),
                  v_calls := v_calls st @ [ValidatorCalled sc (JObj (query rawv)) Query]\<rparr>))"

definition invalid_json_issue :: validation_issue where
  "invalid_json_issue =
     \<lparr>part = Body, issue_path = [], message = ''Invalid JSON'', code = None\<rparr>"

definition validate_body_block :: "validator \<Rightarrow> request_schemas \<Rightarrow> raw_values
    \<Rightarrow> js_error option \<Rightarrow> vstate \<Rightarrow> vstate" where
  "validate_body_block v s rawv bodyParseError st =
     (case schemas_body s of
        None \<Rightarrow> st
      | Some sc \<Rightarrow>
          (case bodyParseError of
             Some perr \<Rightarrow>
               st\<lparr>v_failed := v_failed st @ [Body],
                  v_issues := v_issues st @ [invalid_json_issue],
                  v_errors := set_error Body (JErr perr) (v_errors st)\<rparr>
           | None \<Rightarrow>
               (case v sc (body rawv) Body of
                  ValidateOk val \<Rightarrow>
                    st\<lparr>validatedBody := val,
                       v_calls := v_calls st @ [ValidatorCalled sc (body rawv) Body]\<rparr>
                | ValidateErr iss e \<Rightarrow>
                    st\<lparr>v_failed := v_failed st @ [Body],
                       v_issues := v_issues st @ iss,
                       v_errors := (if e \<noteq> JUndefined then set_error Body e (v_errors st)
                                    else v_errors st),
                       v_calls := v_calls st @ [ValidatorCalled sc (body rawv) Body]\<rparr>)))"

definition validator_required :: js_error where
  "validator_required =
     Error (''Validator is required when route defines request schemas. '' @
            ''Please provide a validator in setupHttp() configuration.'')"

text \<open>
  \<^verbatim>\<open>validateInputs\<close>: \<open>Inl\<close> is the thrown developer error; the second component lists the
  calls made to the adapter.
\<close>

definition validateInputs :: "validator option \<Rightarrow> request_schemas option \<Rightarrow> raw_values
    \<Rightarrow> js_error option \<Rightarrow> (js_error + input_state) \<times> event list" where
  "validateInputs validator schemas_opt rawv bodyParseError =
     (case schemas_opt of
        None \<Rightarrow> (Inr (InputOk (JObj (params rawv)) (JObj (query rawv)) (body rawv)), [])
      | Some s \<Rightarrow>
          (case validator of
             None \<Rightarrow> (Inl validator_required, [])
           | Some v \<Rightarrow>
               (let st0 = \<lparr>v_failed = [], v_issues = [], v_errors = [],
                           validatedParams = JObj (params rawv),
                           validatedQuery = JObj (query rawv),
                           validatedBody = body rawv,
                           v_calls = []\<rparr>;
                    st1 = validate_params_block v s rawv st0;
                    st2 = validate_query_block v s rawv st1;
                    st3 = validate_body_block v s rawv bodyParseError st2
                in if length (v_failed st3) > 0
                   then (Inr (InputErr (v_failed st3) (v_issues st3)
                                \<lparr>params = params rawv, query = query rawv, body = body rawv\<rparr>
                                (if length (v_errors st3) > 0 then Some (v_errors st3) else None)),
                         v_calls st3)
                   else (Inr (InputOk (validatedParams st3) (validatedQuery st3)
                                (validatedBody st3)),
                         v_calls st3))))"

section \<open>The router (router.ts)\<close>

record route_match =
  rm_handler :: handler
  rm_params :: jsrec

text \<open>The loop \<^verbatim>\<open>for (const key in groups) params[key] = groups[key]\<close>.\<close>

definition copy_groups :: "jsrec \<Rightarrow> jsrec" where
  "copy_groups groups = foldl (\<lambda>ps (key, v). set_prop key v ps) [] groups"

text \<open>
  \<^verbatim>\<open>match\<close>, over the route table in registration order. The compiled pattern of a route
  is the host's \<^verbatim>\<open>URLPattern\<close> for its path template.
\<close>

fun match :: "host \<Rightarrow> handler list \<Rightarrow> string \<Rightarrow> string \<Rightarrow> route_match option" where
  "match h [] m url = None"
| "match h (r # routes) m url =
     (if route_method r \<noteq> ''*'' \<and> route_method r \<noteq> m then match h routes m url
      else (case URLPattern_exec h (route_path r) url of
              Some groups \<Rightarrow> Some \<lparr>rm_handler = r, rm_params = copy_groups groups\<rparr>
            | None \<Rightarrow> match h routes m url))"

record router_response =
  rr_response :: response
  rr_context :: ctx

text \<open>A value thrown out of \<^verbatim>\<open>handle\<close>, with the context attached to it, if any.\<close>

datatype thrown = Thrown js_error "ctx option"

definition not_found :: response where
  "not_found = \<lparr>status = 404, resp_body = TextBody ''Not Found''\<rparr>"

text \<open>\<^verbatim>\<open>matched.handler.request?.body\<close> as a condition.\<close>

definition has_body_schema :: "handler \<Rightarrow> bool" where
  "has_body_schema r = (case schemas r of None \<Rightarrow> False | Some s \<Rightarrow> schemas_body s \<noteq> None)"

text \<open>
  Lines 82 to 117 of \<^verbatim>\<open>handle\<close>: the query, the body if a body schema is declared, the
  validation, and the initial context. A throw here carries no context.
\<close>

definition initial_context :: "host \<Rightarrow> validator option \<Rightarrow> route_match \<Rightarrow> request
    \<Rightarrow> locals_map \<Rightarrow> (thrown + ctx) \<times> event list" where
  "initial_context h validator matched req initialLocals =
     (let q = parseQuery h (req_url req);
          (res, t1) = (if has_body_schema (rm_handler matched) then parseBody h req
                       else (Inr \<lparr>parsed = JUndefined, error = None\<rparr>, []))
      in (case res of
            Inl e \<Rightarrow> (Inl (Thrown e None), t1)
          | Inr result \<Rightarrow>
              (let bodyValue = parsed result;
                   bodyParseError = error result;
                   (inp, t2) = validateInputs validator (schemas (rm_handler matched))
                                 \<lparr>params = rm_params matched, query = q, body = bodyValue\<rparr>
                                 bodyParseError
               in (case inp of
                     Inl e \<Rightarrow> (Inl (Thrown e None), t1 @ t2)
                   | Inr i \<Rightarrow>
                       (Inr \<lparr>request = req,
                             raw = \<lparr>params = rm_params matched, query = q, body = bodyValue\<rparr>,
                             input = i,
                             locals = initialLocals\<rparr>,
                        t1 @ t2)))))"

text \<open>The guards the loop runs over: none when \<^verbatim>\<open>handler.guards\<close> is absent or empty.\<close>

definition guards_of :: "handler \<Rightarrow> guard_fn list" where
  "guards_of r = (case guards r of None \<Rightarrow> [] | Some gs \<Rightarrow> gs)"

text \<open>How the guard loop ends.\<close>

datatype guard_exit = GuardsPassed ctx | GuardDenied response ctx | GuardThrew js_error ctx

text \<open>
  The guard loop; \<open>i\<close> is the position of the next guard in the route's list. A patch
  makes a new context, the old one is not changed.
\<close>

fun run_guards :: "guard_fn list \<Rightarrow> nat \<Rightarrow> ctx \<Rightarrow> guard_exit \<times> event list" where
  "run_guards [] i c = (GuardsPassed c, [])"
| "run_guards (g # gs) i c =
     (case g c of
        Inl e \<Rightarrow> (GuardThrew e c, [GuardCalled i c])
      | Inr (Deny resp) \<Rightarrow> (GuardDenied resp c, [GuardCalled i c])
      | Inr (Allow patch) \<Rightarrow>
          (let c' = (case patch of
                       Some p \<Rightarrow> c\<lparr>locals := locals c ++ p\<rparr>
                     | None \<Rightarrow> c);
               (r, t) = run_guards gs (Suc i) c'
           in (r, GuardCalled i c # t)))"

text \<open>\<^verbatim>\<open>handle\<close>: \<open>Inl\<close> is a rejected promise.\<close>

definition handle :: "host \<Rightarrow> handler list \<Rightarrow> validator option \<Rightarrow> request
    \<Rightarrow> locals_map \<Rightarrow> (thrown + router_response) \<times> event list" where
  "handle h routes validator req initialLocals =
     (case match h routes (req_method req) (req_url req) of
        None \<Rightarrow>
          (let notFoundContext =
                 \<lparr>request = req,
                  raw = \<lparr>params = [], query = [], body = JUndefined\<rparr>,
                  input = InputOk (JObj []) (JObj []) JUndefined,
                  locals = Map.empty\<rparr>
           in (Inr \<lparr>rr_response = not_found, rr_context = notFoundContext\<rparr>, []))
      | Some matched \<Rightarrow>
          (case initial_context h validator matched req initialLocals of
             (Inl e, t0) \<Rightarrow> (Inl e, t0)
           | (Inr c0, t0) \<Rightarrow>
               (case run_guards (guards_of (rm_handler matched)) 0 c0 of
                  (GuardDenied resp c, t1) \<Rightarrow>
                    (Inr \<lparr>rr_response = resp, rr_context = c\<rparr>, t0 @ t1)
                | (GuardThrew e c, t1) \<Rightarrow> (Inl (Thrown e (Some c)), t0 @ t1)
                | (GuardsPassed c, t1) \<Rightarrow>
                    (case resolve (rm_handler matched) c of
                       Inr resp \<Rightarrow>
                         (Inr \<lparr>rr_response = resp, rr_context = c\<rparr>,
                          t0 @ t1 @ [HandlerCalled c])
                     | Inl e \<Rightarrow> (Inl (Thrown e (Some c)), t0 @ t1 @ [HandlerCalled c])))))"

section \<open>Grouping (group.ts)\<close>

datatype handler_group = Single handler | Nested "handler_group list"

text \<open>
  \<^verbatim>\<open>group({ handlers, guards })\<close>; the recursive call on a nested array passes no guards.
\<close>

fun group :: "handler_group list \<Rightarrow> guard_fn list option \<Rightarrow> handler list" where
  "group items gs_opt =
     (let result = concat (map (\<lambda>item. case item of
                                   Nested inner \<Rightarrow> group inner None
                                 | Single r \<Rightarrow> [r]) items)
      in (case gs_opt of
            None \<Rightarrow> result
          | Some gs \<Rightarrow>
              (if length gs > 0
               then map (\<lambda>r. r\<lparr>guards := Some (gs @ guards_of r)\<rparr>) result
               else result)))"

section \<open>The lifecycle wrapper (runtime.ts)\<close>

type_synonym on_error = "js_error \<Rightarrow> ctx \<Rightarrow> js_error + response"
type_synonym on_request = "request \<Rightarrow> js_error + locals_map option"
type_synonym on_response = "ctx \<Rightarrow> response \<Rightarrow> js_error + response"

record config =
  handlers :: "handler list"
  validator :: "validator option"
  onError :: "on_error option"
  onRequest :: "on_request option"
  onResponse :: "on_response option"

datatype setup_arg = HandlerArray "handler list" | Config config

text \<open>The default error boundary: the sanitized 500 (its console output is not modelled).\<close>

definition defaultOnError :: on_error where
  "defaultOnError err c =
     Inr \<lparr>status = 500, resp_body = JsonBody (JObj [(''error'', JStr ''Internal Server Error'')])\<rparr>"

text \<open>
  The \<^verbatim>\<open>try\<close> block of \<^verbatim>\<open>fetch\<close>. Every \<^verbatim>\<open>RouterResponse\<close> holds a context object, so
  the test \<^verbatim>\<open>onResponse && response.context\<close> is the test for the hook alone.
\<close>

definition fetch_try :: "host \<Rightarrow> handler list \<Rightarrow> validator option \<Rightarrow> on_request option
    \<Rightarrow> on_response option \<Rightarrow> request \<Rightarrow> (thrown + response) \<times> event list" where
  "fetch_try h hs v onReq onResp req =
     (let (il, t0) = (case onReq of
                        Some f \<Rightarrow> (f req, [OnRequestCalled])
                      | None \<Rightarrow> (Inr (Some Map.empty), []))
      in (case il of
            Inl e \<Rightarrow> (Inl (Thrown e None), t0)
          | Inr initialLocals \<Rightarrow>
              (case handle h hs v req (case initialLocals of None \<Rightarrow> Map.empty | Some l \<Rightarrow> l) of
                 (Inl e, t1) \<Rightarrow> (Inl e, t0 @ t1)
               | (Inr rr, t1) \<Rightarrow>
                   (case onResp of
                      Some f \<Rightarrow>
                        (case f (rr_context rr) (rr_response rr) of
                           Inr updatedResponse \<Rightarrow>
                             (Inr updatedResponse,
                              t0 @ t1 @ [OnResponseCalled (rr_context rr) (rr_response rr)])
                         | Inl e \<Rightarrow>
                             (Inl (Thrown e None),
                              t0 @ t1 @ [OnResponseCalled (rr_context rr) (rr_response rr)]))
                    | None \<Rightarrow> (Inr (rr_response rr), t0 @ t1)))))"

text \<open>The five constants \<^verbatim>\<open>setupHttp\<close> reads off its argument.\<close>

definition setup_handlers :: "setup_arg \<Rightarrow> handler list" where
  "setup_handlers cfg = (case cfg of HandlerArray a \<Rightarrow> a | Config c \<Rightarrow> handlers c)"

definition setup_validator :: "setup_arg \<Rightarrow> validator option" where
  "setup_validator cfg = (case cfg of HandlerArray a \<Rightarrow> None | Config c \<Rightarrow> validator c)"

definition setup_onError :: "setup_arg \<Rightarrow> on_error" where
  "setup_onError cfg =
     (case cfg of
        HandlerArray a \<Rightarrow> defaultOnError
      | Config c \<Rightarrow> (case onError c of None \<Rightarrow> defaultOnError | Some f \<Rightarrow> f))"

definition setup_onRequest :: "setup_arg \<Rightarrow> on_request option" where
  "setup_onRequest cfg = (case cfg of HandlerArray a \<Rightarrow> None | Config c \<Rightarrow> onRequest c)"

definition setup_onResponse :: "setup_arg \<Rightarrow> on_response option" where
  "setup_onResponse cfg = (case cfg of HandlerArray a \<Rightarrow> None | Config c \<Rightarrow> onResponse c)"

text \<open>\<^verbatim>\<open>setupHttp(config).fetch\<close>: \<open>Inl\<close> is a rejected promise (the error boundary threw).\<close>

definition fetch :: "host \<Rightarrow> setup_arg \<Rightarrow> request \<Rightarrow> (js_error + response) \<times> event list" where
  "fetch h cfg req =
     (case fetch_try h (setup_handlers cfg) (setup_validator cfg) (setup_onRequest cfg)
             (setup_onResponse cfg) req of
        (Inr resp, t) \<Rightarrow> (Inr resp, t)
      | (Inl (Thrown err attached), t) \<Rightarrow>
          (let c = (case attached of
                      Some c \<Rightarrow> c
                    | None \<Rightarrow>
                        \<lparr>request = req,
                         raw = \<lparr>params = [], query = [], body = JUndefined\<rparr>,
                         input = InputOk (JObj []) (JObj []) JUndefined,
                         locals = Map.empty\<rparr>)
           in (setup_onError cfg err c, t @ [OnErrorCalled err c])))"

section \<open>The validation gate as the specification words it\<close>

text \<open>
  What one part comes to, from that part's schema, that part's raw value and (for the
  body) the parse error alone: not declared, validated, or failed with its issues and its
  raw error. The second component is the call made to the adapter, if one is made.
\<close>

datatype part_outcome = NotDeclared | PartOk jsval | PartFailed "validation_issue list" jsval

definition part_outcome :: "validator \<Rightarrow> schema option \<Rightarrow> jsval \<Rightarrow> js_error option
    \<Rightarrow> validation_part \<Rightarrow> part_outcome \<times> event list" where
  "part_outcome v sc_opt rawval perr p =
     (case sc_opt of
        None \<Rightarrow> (NotDeclared, [])
      | Some sc \<Rightarrow>
          (case perr of
             Some e \<Rightarrow> (PartFailed [invalid_json_issue] (JErr e), [])
           | None \<Rightarrow>
               (case v sc rawval p of
                  ValidateOk x \<Rightarrow> (PartOk x, [ValidatorCalled sc rawval p])
                | ValidateErr iss e \<Rightarrow> (PartFailed iss e, [ValidatorCalled sc rawval p]))))"

fun part_failed :: "part_outcome \<Rightarrow> bool" where
  "part_failed (PartFailed iss e) = True"
| "part_failed out = False"

fun outcome_issues :: "part_outcome \<Rightarrow> validation_issue list" where
  "outcome_issues (PartFailed iss e) = iss"
| "outcome_issues out = []"

fun outcome_error :: "validation_part \<Rightarrow> part_outcome \<Rightarrow> (validation_part \<times> jsval) list" where
  "outcome_error p (PartFailed iss e) = (if e \<noteq> JUndefined then [(p, e)] else [])"
| "outcome_error p out = []"

fun outcome_value :: "part_outcome \<Rightarrow> jsval \<Rightarrow> jsval" where
  "outcome_value (PartOk x) rawval = x"
| "outcome_value out rawval = rawval"

text \<open>
  The aggregate of the specification: the parts in the order params, query, body; the
  failed ones, their issues and their raw errors in that order; the failure variant if
  any part failed, else the success variant.
\<close>

definition validate_spec :: "validator \<Rightarrow> request_schemas \<Rightarrow> raw_values
    \<Rightarrow> js_error option \<Rightarrow> (js_error + input_state) \<times> event list" where
  "validate_spec v s rawv perr =
     (let (op, cp) = part_outcome v (schemas_params s) (JObj (params rawv)) None Params;
          (oq, cq) = part_outcome v (schemas_query s) (JObj (query rawv)) None Query;
          (ob, cb) = part_outcome v (schemas_body s) (body rawv) perr Body;
          outs = [(Params, op), (Query, oq), (Body, ob)];
          bad = filter (\<lambda>(p, out). part_failed out) outs;
          errs = concat (map (\<lambda>(p, out). outcome_error p out) bad)
      in (Inr (if bad \<noteq> []
               then InputErr (map fst bad) (concat (map (\<lambda>(p, out). outcome_issues out) bad))
                      \<lparr>params = params rawv, query = query rawv, body = body rawv\<rparr>
                      (if errs \<noteq> [] then Some errs else None)
               else InputOk (outcome_value op (JObj (params rawv)))
                      (outcome_value oq (JObj (query rawv)))
                      (outcome_value ob (body rawv))),
          cp @ cq @ cb))"

section \<open>Route selection as the specification words it\<close>

text \<open>
  A descriptor qualifies for a request when its method is the request's or the wildcard,
  and its path template matches the URL.
\<close>

definition qualifies :: "host \<Rightarrow> string \<Rightarrow> string \<Rightarrow> handler \<Rightarrow> bool" where
  "qualifies h m url r =
     ((route_method r = ''*'' \<or> route_method r = m) \<and> URLPattern_exec h (route_path r) url \<noteq> None)"

section \<open>The guard chain as the specification words it\<close>

text \<open>The patch a guard returns on a context: empty unless it allows with locals.\<close>

definition patch_of :: "guard_fn \<Rightarrow> ctx \<Rightarrow> locals_map" where
  "patch_of g c = (case g c of Inr (Allow (Some p)) \<Rightarrow> p | _ \<Rightarrow> Map.empty)"

text \<open>
  The context after the first \<open>n\<close> guards of the list: the locals of the context after
  \<open>n - 1\<close> guards, united with the patch of guard \<open>n - 1\<close>, whose keys take precedence.
\<close>

fun ctx_after :: "guard_fn list \<Rightarrow> ctx \<Rightarrow> nat \<Rightarrow> ctx" where
  "ctx_after gs c 0 = c"
| "ctx_after gs c (Suc n) =
     (ctx_after gs c n)\<lparr>locals :=
        locals (ctx_after gs c n) ++ patch_of (gs ! n) (ctx_after gs c n)\<rparr>"

definition allows :: "guard_fn list \<Rightarrow> ctx \<Rightarrow> nat \<Rightarrow> bool" where
  "allows gs c n = (case (gs ! n) (ctx_after gs c n) of Inr (Allow p) \<Rightarrow> True | _ \<Rightarrow> False)"

text \<open>The position of the first guard that does not allow, if there is one.\<close>

definition stop_index :: "guard_fn list \<Rightarrow> ctx \<Rightarrow> nat option" where
  "stop_index gs c = find (\<lambda>n. \<not> allows gs c n) [0..<length gs]"

text \<open>
  The chain of the specification: the guards are called in the order of the list, each
  on the context accumulated so far, up to and including the first that does not allow.
\<close>

definition guard_chain_spec :: "guard_fn list \<Rightarrow> ctx \<Rightarrow> guard_exit \<times> event list" where
  "guard_chain_spec gs c =
     (case stop_index gs c of
        None \<Rightarrow>
          (GuardsPassed (ctx_after gs c (length gs)),
           map (\<lambda>n. GuardCalled n (ctx_after gs c n)) [0..<length gs])
      | Some k \<Rightarrow>
          ((case (gs ! k) (ctx_after gs c k) of
              Inr (Deny resp) \<Rightarrow> GuardDenied resp (ctx_after gs c k)
            | Inl e \<Rightarrow> GuardThrew e (ctx_after gs c k)
            | Inr (Allow p) \<Rightarrow> GuardsPassed (ctx_after gs c k)),
           map (\<lambda>n. GuardCalled n (ctx_after gs c n)) [0..<Suc k]))"

text \<open>The handlers of a grouping, in registration order.\<close>

fun flat_handlers :: "handler_group \<Rightarrow> handler list" where
  "flat_handlers (Single r) = [r]"
| "flat_handlers (Nested items) = concat (map flat_handlers items)"

section \<open>The lifecycle as the specification words it\<close>

text \<open>
  What the pre-routing hook contributes: the initial locals (none without a hook or when
  the hook returns nothing), or the error it throws.
\<close>

definition initial_locals :: "setup_arg \<Rightarrow> request \<Rightarrow> js_error + locals_map" where
  "initial_locals cfg req =
     (case setup_onRequest cfg of
        None \<Rightarrow> Inr Map.empty
      | Some f \<Rightarrow>
          (case f req of
             Inl e \<Rightarrow> Inl e
           | Inr None \<Rightarrow> Inr Map.empty
           | Inr (Some l) \<Rightarrow> Inr l))"

text \<open>A guard call with its position moved by \<open>i\<close>, for a loop entered at position \<open>i\<close>.\<close>

fun shift_event :: "nat \<Rightarrow> event \<Rightarrow> event" where
  "shift_event i (GuardCalled n c) = GuardCalled (i + n) c"
| "shift_event i e = e"

text \<open>The calls to the validator adapter among the events.\<close>

fun is_validator_call :: "event \<Rightarrow> bool" where
  "is_validator_call (ValidatorCalled sc x p) = True"
| "is_validator_call e = False"

section \<open>A small application, for concrete runs\<close>

text \<open>
  An adapter in the manner of the test suite's mock: the schema named \<open>accept\<close> passes
  its input through, any other schema fails with one issue and a raw error.
\<close>

definition ex_validator :: validator where
  "ex_validator sc x p =
     (if sc = Schema ''accept'' then ValidateOk x
      else ValidateErr
             [\<lparr>part = p, issue_path = [], message = ''Validation failed'', code = Some ''custom''\<rparr>]
             (JStr ''raw error''))"

text \<open>
  The host on the handful of inputs the runs below use: the matches of three path
  templates, no query strings, and a JSON parser that knows two texts.
\<close>

definition ex_host :: host where
  "ex_host =
     \<lparr>URLPattern_exec = (\<lambda>template url.
        if template = ''/users/:id'' \<and> url = ''http://localhost/users/7''
          then Some [(''id'', JStr ''7'')]
        else if template = ''/data'' \<and> url = ''http://localhost/data'' then Some []
        else if template = ''/admin'' \<and> url = ''http://localhost/admin'' then Some []
        else None),
      URL_searchParams = (\<lambda>url. []),
      JSON_parse = (\<lambda>txt.
        if txt = ''null'' then Inr JNull
        else if txt = ''[1]'' then Inr (JArr [JNum 1])
        else Inl ''Unexpected token'')\<rparr>"

definition ok_response :: response where
  "ok_response = \<lparr>status = 200, resp_body = TextBody ''OK''\<rparr>"

definition ex_route :: "string \<Rightarrow> string \<Rightarrow> handler" where
  "ex_route m p =
     \<lparr>route_method = m, route_path = p, resolve = (\<lambda>c. Inr ok_response),
      guards = None, schemas = None\<rparr>"

text \<open>
  Guards: two attach facts (the second sets a key the first has set), one denies, one
  throws.
\<close>

definition ex_guard_user :: guard_fn where
  "ex_guard_user c = Inr (Allow (Some [''user'' \<mapsto> JStr ''alice'', ''role'' \<mapsto> JStr ''guest'']))"


definition forbidden :: response where
  "forbidden = \<lparr>status = 403, resp_body = TextBody ''Forbidden''\<rparr>"

definition ex_guard_deny :: guard_fn where
  "ex_guard_deny c = Inr (Deny forbidden)"

definition ex_guard_throw :: guard_fn where
  "ex_guard_throw c = Inl (Error ''boom'')"

definition ex_request :: "string \<Rightarrow> string \<Rightarrow> body_source \<Rightarrow> request" where
  "ex_request m url b = \<lparr>req_method = m, req_url = url, req_body = b\<rparr>"

text \<open>A route with its own guard, inside a grouping, inside a grouping.\<close>

definition ex_admin_routes :: "handler list" where
  "ex_admin_routes =
     group [Nested (map Single
              (group [Single ((ex_route ''GET'' ''/admin'')\<lparr>guards := Some [ex_guard_throw]\<rparr>)]
                 (Some [ex_guard_deny])))]
       (Some [ex_guard_user])"


text \<open>A route that declares a body schema.\<close>

definition ex_body_route :: handler where
  "ex_body_route =
     (ex_route ''POST'' ''/data'')\<lparr>schemas :=
        Some \<lparr>schemas_params = None, schemas_query = None,
              schemas_body = Some (Schema ''accept'')\<rparr>\<rparr>"

text \<open>A response hook that rewrites the status, and an application with no route.\<close>

definition ex_on_response :: on_response where
  "ex_on_response c r = Inr (r\<lparr>status := 200\<rparr>)"

definition ex_empty_app :: setup_arg where
  "ex_empty_app =
     Config \<lparr>handlers = [], validator = None, onError = None, onRequest = None,
             onResponse = Some ex_on_response\<rparr>"

text \<open>An application whose pre-routing hook throws.\<close>

definition ex_on_request_throws :: on_request where
  "ex_on_request_throws r = Inl (Error ''hook failed'')"

definition ex_throwing_app :: setup_arg where
  "ex_throwing_app =
     Config \<lparr>handlers = [], validator = None, onError = None,
             onRequest = Some ex_on_request_throws, onResponse = None\<rparr>"

section \<open>The validation gate\<close>

lemma params_block_fields:
  "v_failed (validate_params_block v s rawv st) =
     v_failed st @
     (if part_failed (fst (part_outcome v (schemas_params s) (JObj (params rawv)) None Params))
      then [Params] else [])"
  "v_issues (validate_params_block v s rawv st) =
     v_issues st @
     outcome_issues (fst (part_outcome v (schemas_params s) (JObj (params rawv)) None Params))"
  "v_errors (validate_params_block v s rawv st) =
     foldl (\<lambda>es (p, e). set_error p e es) (v_errors st)
       (outcome_error Params
          (fst (part_outcome v (schemas_params s) (JObj (params rawv)) None Params)))"
  "validatedParams (validate_params_block v s rawv st) =
     outcome_value (fst (part_outcome v (schemas_params s) (JObj (params rawv)) None Params))
       (validatedParams st)"
  "validatedQuery (validate_params_block v s rawv st) = validatedQuery st"
  "validatedBody (validate_params_block v s rawv st) = validatedBody st"
  "v_calls (validate_params_block v s rawv st) =
     v_calls st @ snd (part_outcome v (schemas_params s) (JObj (params rawv)) None Params)"
  by (simp_all add: validate_params_block_def part_outcome_def
      split: option.split validate_result.split)

lemma query_block_fields:
  "v_failed (validate_query_block v s rawv st) =
     v_failed st @
     (if part_failed (fst (part_outcome v (schemas_query s) (JObj (query rawv)) None Query))
      then [Query] else [])"
  "v_issues (validate_query_block v s rawv st) =
     v_issues st @
     outcome_issues (fst (part_outcome v (schemas_query s) (JObj (query rawv)) None Query))"
  "v_errors (validate_query_block v s rawv st) =
     foldl (\<lambda>es (p, e). set_error p e es) (v_errors st)
       (outcome_error Query
          (fst (part_outcome v (schemas_query s) (JObj (query rawv)) None Query)))"
  "validatedParams (validate_query_block v s rawv st) = validatedParams st"
  "validatedQuery (validate_query_block v s rawv st) =
     outcome_value (fst (part_outcome v (schemas_query s) (JObj (query rawv)) None Query))
       (validatedQuery st)"
  "validatedBody (validate_query_block v s rawv st) = validatedBody st"
  "v_calls (validate_query_block v s rawv st) =
     v_calls st @ snd (part_outcome v (schemas_query s) (JObj (query rawv)) None Query)"
  by (simp_all add: validate_query_block_def part_outcome_def
      split: option.split validate_result.split)

lemma body_block_fields:
  "v_failed (validate_body_block v s rawv perr st) =
     v_failed st @
     (if part_failed (fst (part_outcome v (schemas_body s) (body rawv) perr Body))
      then [Body] else [])"
  "v_issues (validate_body_block v s rawv perr st) =
     v_issues st @ outcome_issues (fst (part_outcome v (schemas_body s) (body rawv) perr Body))"
  "v_errors (validate_body_block v s rawv perr st) =
     foldl (\<lambda>es (p, e). set_error p e es) (v_errors st)
       (outcome_error Body (fst (part_outcome v (schemas_body s) (body rawv) perr Body)))"
  "validatedParams (validate_body_block v s rawv perr st) = validatedParams st"
  "validatedQuery (validate_body_block v s rawv perr st) = validatedQuery st"
  "validatedBody (validate_body_block v s rawv perr st) =
     outcome_value (fst (part_outcome v (schemas_body s) (body rawv) perr Body))
       (validatedBody st)"
  "v_calls (validate_body_block v s rawv perr st) =
     v_calls st @ snd (part_outcome v (schemas_body s) (body rawv) perr Body)"
  by (simp_all add: validate_body_block_def part_outcome_def
      split: option.split validate_result.split)

lemma validateInputs_refines:
  "validateInputs (Some v) (Some s) rawv perr = validate_spec v s rawv perr"
proof -
  obtain op cp where P:
    "part_outcome v (schemas_params s) (JObj (params rawv)) None Params = (op, cp)"
    by (cases "part_outcome v (schemas_params s) (JObj (params rawv)) None Params")
  obtain oq cq where Q:
    "part_outcome v (schemas_query s) (JObj (query rawv)) None Query = (oq, cq)"
    by (cases "part_outcome v (schemas_query s) (JObj (query rawv)) None Query")
  obtain ob cb where B: "part_outcome v (schemas_body s) (body rawv) perr Body = (ob, cb)"
    by (cases "part_outcome v (schemas_body s) (body rawv) perr Body")
  show ?thesis
    unfolding validateInputs_def validate_spec_def
    by (cases op; cases oq; cases ob)
      (simp_all add: Let_def params_block_fields query_block_fields body_block_fields P Q B)
qed

text \<open>
  C1. With an adapter and declared schemas, \<^verbatim>\<open>validateInputs\<close> is the aggregate of the
  three parts taken one by one in the order params, query, body: the failure variant with
  the failed parts, their issues concatenated and the raw values echoed if a part failed,
  else the success variant with the validated value of each declared part and the raw
  value of each undeclared one; the adapter is called for the declared parts in that order.
\<close>

theorem validateInputs_aggregates:
  "validateInputs (Some v) (Some s) rawv perr = validate_spec v s rawv perr"
  by (rule validateInputs_refines)

theorem validateInputs_aggregates_witness:
  "validateInputs (Some ex_validator)
     (Some \<lparr>schemas_params = Some (Schema ''reject''), schemas_query = None,
            schemas_body = Some (Schema ''accept'')\<rparr>)
     \<lparr>params = [(''id'', JStr ''7'')], query = [(''q'', JStr ''x'')], body = JUndefined\<rparr>
     (Some (SyntaxError ''Unexpected token''))
   = (Inr (InputErr [Params, Body]
             [\<lparr>part = Params, issue_path = [], message = ''Validation failed'',
               code = Some ''custom''\<rparr>,
              \<lparr>part = Body, issue_path = [], message = ''Invalid JSON'', code = None\<rparr>]
             \<lparr>params = [(''id'', JStr ''7'')], query = [(''q'', JStr ''x'')], body = JUndefined\<rparr>
             (Some [(Params, JStr ''raw error''),
                    (Body, JErr (SyntaxError ''Unexpected token''))])),
      [ValidatorCalled (Schema ''reject'') (JObj [(''id'', JStr ''7'')]) Params])"
  unfolding validateInputs_aggregates
  by (simp add: validate_spec_def part_outcome_def ex_validator_def invalid_json_issue_def)

section \<open>Route selection\<close>

lemma set_prop_fresh: "k \<notin> fst ` set r \<Longrightarrow> set_prop k v r = r @ [(k, v)]"
  by (induction r) auto

lemma copy_loop_distinct:
  "distinct (map fst (acc @ g)) \<Longrightarrow> foldl (\<lambda>ps (key, v). set_prop key v ps) acc g = acc @ g"
proof (induction g arbitrary: acc)
  case Nil
  then show ?case by simp
next
  case (Cons kv g)
  obtain k v where kv: "kv = (k, v)" by (cases kv)
  from Cons.prems kv have fresh: "k \<notin> fst ` set acc" by auto
  from Cons.prems kv have "distinct (map fst ((acc @ [(k, v)]) @ g))" by auto
  from Cons.IH [OF this] show ?case by (simp add: kv set_prop_fresh [OF fresh])
qed

lemma copy_groups_distinct: "distinct (map fst g) \<Longrightarrow> copy_groups g = g"
  unfolding copy_groups_def using copy_loop_distinct [of "[]" g] by simp

lemma match_None_iff:
  "match h routes m url = None \<longleftrightarrow> (\<forall>r \<in> set routes. \<not> qualifies h m url r)"
  by (induction routes) (auto simp: qualifies_def split: option.splits)

lemma match_Some_first:
  "match h routes m url = Some rm \<Longrightarrow>
     \<exists>pre post groups. routes = pre @ rm_handler rm # post
       \<and> (\<forall>r \<in> set pre. \<not> qualifies h m url r)
       \<and> qualifies h m url (rm_handler rm)
       \<and> URLPattern_exec h (route_path (rm_handler rm)) url = Some groups
       \<and> rm_params rm = copy_groups groups"
proof (induction routes)
  case Nil
  then show ?case by simp
next
  case (Cons r routes)
  show ?case
  proof (cases "qualifies h m url r")
    case True
    then obtain groups where g: "URLPattern_exec h (route_path r) url = Some groups"
      by (auto simp: qualifies_def)
    with True Cons.prems have rm: "rm = \<lparr>rm_handler = r, rm_params = copy_groups groups\<rparr>"
      by (auto simp: qualifies_def)
    have "r # routes = [] @ rm_handler rm # routes" by (simp add: rm)
    with True g rm show ?thesis by fastforce
  next
    case False
    with Cons.prems have "match h routes m url = Some rm"
      by (auto simp: qualifies_def split: if_splits option.splits)
    from Cons.IH [OF this] obtain pre post groups where
      *: "routes = pre @ rm_handler rm # post" "\<forall>r \<in> set pre. \<not> qualifies h m url r"
         "qualifies h m url (rm_handler rm)"
         "URLPattern_exec h (route_path (rm_handler rm)) url = Some groups"
         "rm_params rm = copy_groups groups"
      by blast
    from * False have "r # routes = (r # pre) @ rm_handler rm # post"
      "\<forall>r' \<in> set (r # pre). \<not> qualifies h m url r'" by auto
    with * show ?thesis by blast
  qed
qed

text \<open>
  C4. \<^verbatim>\<open>match\<close> returns no match exactly when no descriptor qualifies; otherwise it
  returns the first descriptor in registration order that qualifies (none before it
  does), with the groups of that descriptor's pattern match copied as the parameters.
\<close>

theorem match_first_qualifying:
  "(match h routes m url = None \<longleftrightarrow> (\<forall>r \<in> set routes. \<not> qualifies h m url r)) \<and>
   (\<forall>rm. match h routes m url = Some rm \<longrightarrow>
      (\<exists>pre post groups. routes = pre @ rm_handler rm # post
         \<and> (\<forall>r \<in> set pre. \<not> qualifies h m url r)
         \<and> qualifies h m url (rm_handler rm)
         \<and> URLPattern_exec h (route_path (rm_handler rm)) url = Some groups
         \<and> rm_params rm = copy_groups groups
         \<and> (distinct (map fst groups) \<longrightarrow> rm_params rm = groups)))"
proof (intro conjI allI impI)
  show "match h routes m url = None \<longleftrightarrow> (\<forall>r \<in> set routes. \<not> qualifies h m url r)"
    by (rule match_None_iff)
next
  fix rm assume "match h routes m url = Some rm"
  from match_Some_first [OF this] obtain pre post groups where
    *: "routes = pre @ rm_handler rm # post" "\<forall>r \<in> set pre. \<not> qualifies h m url r"
       "qualifies h m url (rm_handler rm)"
       "URLPattern_exec h (route_path (rm_handler rm)) url = Some groups"
       "rm_params rm = copy_groups groups"
    by blast
  then have "distinct (map fst groups) \<longrightarrow> rm_params rm = groups"
    by (simp add: copy_groups_distinct)
  with * show "\<exists>pre post groups. routes = pre @ rm_handler rm # post
         \<and> (\<forall>r \<in> set pre. \<not> qualifies h m url r)
         \<and> qualifies h m url (rm_handler rm)
         \<and> URLPattern_exec h (route_path (rm_handler rm)) url = Some groups
         \<and> rm_params rm = copy_groups groups
         \<and> (distinct (map fst groups) \<longrightarrow> rm_params rm = groups)"
    by blast
qed

theorem match_first_qualifying_witness:
  "match ex_host
     [ex_route ''POST'' ''/users/:id'', ex_route ''GET'' ''/data'',
      ex_route ''*'' ''/users/:id'', ex_route ''GET'' ''/users/:id'']
     ''GET'' ''http://localhost/users/7''
   = Some \<lparr>rm_handler = ex_route ''*'' ''/users/:id'', rm_params = [(''id'', JStr ''7'')]\<rparr>
   \<and> (\<exists>pre post. [ex_route ''POST'' ''/users/:id'', ex_route ''GET'' ''/data'',
          ex_route ''*'' ''/users/:id'', ex_route ''GET'' ''/users/:id'']
          = pre @ ex_route ''*'' ''/users/:id'' # post
        \<and> (\<forall>r \<in> set pre. \<not> qualifies ex_host ''GET'' ''http://localhost/users/7'' r))
   \<and> qualifies ex_host ''GET'' ''http://localhost/users/7'' (ex_route ''*'' ''/users/:id'')"
proof -
  have m: "match ex_host
     [ex_route ''POST'' ''/users/:id'', ex_route ''GET'' ''/data'',
      ex_route ''*'' ''/users/:id'', ex_route ''GET'' ''/users/:id'']
     ''GET'' ''http://localhost/users/7''
   = Some \<lparr>rm_handler = ex_route ''*'' ''/users/:id'', rm_params = [(''id'', JStr ''7'')]\<rparr>"
    by (simp add: ex_host_def ex_route_def copy_groups_def)
  from match_first_qualifying [of ex_host _ "''GET''" "''http://localhost/users/7''"] m
  show ?thesis by fastforce
qed

section \<open>The guard chain\<close>

lemma ctx_after_Cons:
  "ctx_after (g # gs) c (Suc n) = ctx_after gs (c\<lparr>locals := locals c ++ patch_of g c\<rparr>) n"
  by (induction n) simp_all

lemma allows_Cons:
  "allows (g # gs) c (Suc n) = allows gs (c\<lparr>locals := locals c ++ patch_of g c\<rparr>) n"
  by (simp add: allows_def ctx_after_Cons del: ctx_after.simps)

lemma find_map_Suc: "find P (map Suc xs) = map_option Suc (find (\<lambda>n. P (Suc n)) xs)"
  by (induction xs) simp_all

lemma upt_0_Suc: "[0..<Suc n] = 0 # map Suc [0..<n]"
  by (simp only: map_Suc_upt upt_conv_Cons [OF zero_less_Suc])

lemma stop_index_Cons:
  "stop_index (g # gs) c =
     (if allows (g # gs) c 0
      then map_option Suc (stop_index gs (c\<lparr>locals := locals c ++ patch_of g c\<rparr>))
      else Some 0)"
  unfolding stop_index_def length_Cons upt_0_Suc
  by (simp add: find_map_Suc allows_Cons del: upt_Suc)

lemma calls_Cons:
  "map (\<lambda>n. GuardCalled (i + n) (ctx_after (g # gs) c n)) [0..<Suc k] =
     GuardCalled i c #
     map (\<lambda>n. GuardCalled (Suc i + n) (ctx_after gs (c\<lparr>locals := locals c ++ patch_of g c\<rparr>) n)) [0..<k]"
  unfolding upt_0_Suc
  by (simp add: ctx_after_Cons del: upt_Suc ctx_after.simps(2))

lemma run_guards_Cons_allow:
  "g c = Inr (Allow patch) \<Longrightarrow>
   run_guards (g # gs) i c =
     (fst (run_guards gs (Suc i) (c\<lparr>locals := locals c ++ patch_of g c\<rparr>)),
      GuardCalled i c # snd (run_guards gs (Suc i) (c\<lparr>locals := locals c ++ patch_of g c\<rparr>)))"
  by (simp add: case_prod_beta Let_def patch_of_def split: option.split)

lemma run_guards_shifted:
  "run_guards gs i c =
     (fst (guard_chain_spec gs c), map (shift_event i) (snd (guard_chain_spec gs c)))"
proof (induction gs arbitrary: i c)
  case Nil
  then show ?case by (simp add: guard_chain_spec_def stop_index_def)
next
  case (Cons g gs)
  show ?case
  proof (cases "g c")
    case (Inl e)
    then show ?thesis
      by (simp add: guard_chain_spec_def stop_index_Cons allows_def)
  next
    case (Inr res)
    show ?thesis
    proof (cases res)
      case (Deny resp)
      with Inr show ?thesis
        by (simp add: guard_chain_spec_def stop_index_Cons allows_def)
    next
      case (Allow patch)
      let ?c' = "c\<lparr>locals := locals c ++ patch_of g c\<rparr>"
      from Inr Allow have gc: "g c = Inr (Allow patch)" by simp
      then have a: "allows (g # gs) c 0" by (simp add: allows_def)
      note run = run_guards_Cons_allow [of g c patch gs i, OF gc]
      show ?thesis
      proof (cases "stop_index gs ?c'")
        case None
        then have si: "stop_index (g # gs) c = None" by (simp add: stop_index_Cons a)
        show ?thesis
          unfolding run Cons.IH
          unfolding guard_chain_spec_def si None
          using calls_Cons [of 0 g gs c "length gs"]
          by (simp add: ctx_after_Cons del: upt_Suc ctx_after.simps(2))
      next
        case (Some k)
        then have si: "stop_index (g # gs) c = Some (Suc k)" by (simp add: stop_index_Cons a)
        show ?thesis
          unfolding run Cons.IH
          unfolding guard_chain_spec_def si Some
          using calls_Cons [of 0 g gs c "Suc k"]
          by (simp add: ctx_after_Cons del: upt_Suc ctx_after.simps(2)
              split: sum.split guard_result.split)
      qed
    qed
  qed
qed

lemma guard_chain_spec_unshifted:
  "map (shift_event 0) (snd (guard_chain_spec gs c)) = snd (guard_chain_spec gs c)"
  by (simp add: guard_chain_spec_def split: option.split)

lemma run_guards_spec: "run_guards gs 0 c = guard_chain_spec gs c"
  by (simp add: run_guards_shifted guard_chain_spec_unshifted)

lemma ctx_after_frame:
  "request (ctx_after gs c n) = request c"
  "raw (ctx_after gs c n) = raw c"
  "input (ctx_after gs c n) = input c"
  by (induction n) simp_all



lemma stop_index_Some:
  "stop_index gs c = Some k \<Longrightarrow> k < length gs \<and> \<not> allows gs c k \<and> (\<forall>n<k. allows gs c n)"
  unfolding stop_index_def find_Some_iff by auto

declare group.simps [simp del]

lemma group_flat:
  "group items gs_opt =
     (case gs_opt of
        None \<Rightarrow> concat (map flat_handlers items)
      | Some gs \<Rightarrow>
          (if length gs > 0
           then map (\<lambda>r. r\<lparr>guards := Some (gs @ guards_of r)\<rparr>) (concat (map flat_handlers items))
           else concat (map flat_handlers items)))"
proof (induction items gs_opt rule: group.induct)
  case (1 items gs_opt)
  have item: "(case x of Nested inner \<Rightarrow> group inner None | Single r \<Rightarrow> [r]) = flat_handlers x"
    if "x \<in> set items" for x
  proof (cases x)
    case (Single r)
    then show ?thesis by simp
  next
    case (Nested inner)
    with "1.IH" [OF that Nested] show ?thesis by simp
  qed
  have "concat (map (\<lambda>item. case item of Nested inner \<Rightarrow> group inner None | Single r \<Rightarrow> [r]) items)
      = concat (map flat_handlers items)"
    using item by (simp cong: map_cong)
  then show ?case
    by (subst group.simps) (simp add: Let_def split: option.split)
qed

lemma group_guards_of:
  "map guards_of (group items gs_opt) =
     map (\<lambda>r. (case gs_opt of None \<Rightarrow> [] | Some gs \<Rightarrow> gs) @ guards_of r)
       (concat (map flat_handlers items))"
  by (simp add: group_flat guards_of_def split: option.split)

lemma flat_handlers_Singles: "concat (map (flat_handlers \<circ> Single) rs) = rs"
  by (induction rs) simp_all

lemma group_nested_guards_of:
  "map guards_of (group [Nested (map Single (group inner gi))] go) =
     map (\<lambda>r. (case go of None \<Rightarrow> [] | Some gs \<Rightarrow> gs) @
               (case gi of None \<Rightarrow> [] | Some gs \<Rightarrow> gs) @ guards_of r)
       (concat (map flat_handlers inner))"
proof -
  have "map guards_of (group [Nested (map Single (group inner gi))] go) =
      map (\<lambda>r. (case go of None \<Rightarrow> [] | Some gs \<Rightarrow> gs) @ guards_of r) (group inner gi)"
    unfolding group_guards_of by (simp add: flat_handlers_Singles)
  also have "\<dots> = map ((\<lambda>x. (case go of None \<Rightarrow> [] | Some gs \<Rightarrow> gs) @ x) \<circ> guards_of) (group inner gi)"
    by (simp add: comp_def)
  also have "\<dots> = map (\<lambda>x. (case go of None \<Rightarrow> [] | Some gs \<Rightarrow> gs) @ x) (map guards_of (group inner gi))"
    by simp
  finally show ?thesis
    unfolding group_guards_of by (simp add: comp_def)
qed

section \<open>The dispatcher\<close>

lemma parseBody_returns: "\<exists>r. fst (parseBody h req) = Inr r"
  by (simp add: parseBody_def split: sum.split)

lemma parseBody_trace:
  "snd (parseBody h req) = (if req_body req = NoBody then [] else [BodyRead])"
  by (simp add: parseBody_def split: sum.split)

lemma part_outcome_calls:
  "e \<in> set (snd (part_outcome v sc x perr p)) \<Longrightarrow> e = ValidatorCalled (the sc) x p \<and> perr = None"
  by (auto simp: part_outcome_def split: option.splits validate_result.splits)

lemma validateInputs_calls:
  "e \<in> set (snd (validateInputs vo so rawv perr)) \<Longrightarrow> is_validator_call e"
proof (cases so)
  case None
  then show "e \<in> set (snd (validateInputs vo so rawv perr)) \<Longrightarrow> is_validator_call e"
    by (simp add: validateInputs_def)
next
  case (Some s)
  assume e: "e \<in> set (snd (validateInputs vo so rawv perr))"
  show "is_validator_call e"
  proof (cases vo)
    case None
    with Some e show ?thesis by (simp add: validateInputs_def)
  next
    case (Some v)
    with \<open>so = Some s\<close> e show ?thesis
      by (auto simp: validateInputs_refines validate_spec_def case_prod_beta Let_def
          dest!: part_outcome_calls)
  qed
qed

lemma initial_context_events:
  "e \<in> set (snd (initial_context h v m req il)) \<Longrightarrow> e = BodyRead \<or> is_validator_call e"
  using parseBody_returns [of h req] parseBody_trace [of h req]
  by (auto simp: initial_context_def Let_def case_prod_beta
      split: sum.splits if_splits dest: validateInputs_calls)

lemma initial_context_no_read:
  "\<not> has_body_schema (rm_handler m) \<Longrightarrow> BodyRead \<notin> set (snd (initial_context h v m req il))"
  by (auto simp: initial_context_def Let_def case_prod_beta
      split: sum.splits dest: validateInputs_calls)

lemma initial_context_ctx:
  "initial_context h v m req il = (Inr c0, t0) \<Longrightarrow>
     request c0 = req \<and> locals c0 = il \<and> params (raw c0) = rm_params m
       \<and> query (raw c0) = parseQuery h (req_url req)
       \<and> (\<not> has_body_schema (rm_handler m) \<longrightarrow> body (raw c0) = JUndefined)"
  by (auto simp: initial_context_def Let_def case_prod_beta split: sum.splits if_splits)

lemma handle_denied:
  assumes m: "match h routes (req_method req) (req_url req) = Some m"
    and c0: "initial_context h v m req il = (Inr c0, t0)"
    and k: "stop_index (guards_of (rm_handler m)) c0 = Some k"
    and d: "(guards_of (rm_handler m) ! k) (ctx_after (guards_of (rm_handler m)) c0 k) = Inr (Deny resp)"
  shows "handle h routes v req il =
     (Inr \<lparr>rr_response = resp, rr_context = ctx_after (guards_of (rm_handler m)) c0 k\<rparr>,
      t0 @ map (\<lambda>n. GuardCalled n (ctx_after (guards_of (rm_handler m)) c0 n)) [0..<Suc k])"
  by (simp add: handle_def m c0 run_guards_spec guard_chain_spec_def k d del: upt_Suc)

lemma handle_denied_no_handler:
  assumes m: "match h routes (req_method req) (req_url req) = Some m"
    and c0: "initial_context h v m req il = (Inr c0, t0)"
    and k: "stop_index (guards_of (rm_handler m)) c0 = Some k"
    and d: "(guards_of (rm_handler m) ! k) (ctx_after (guards_of (rm_handler m)) c0 k) = Inr (Deny resp)"
  shows "HandlerCalled c' \<notin> set (snd (handle h routes v req il))"
proof
  assume "HandlerCalled c' \<in> set (snd (handle h routes v req il))"
  then have "HandlerCalled c' \<in> set t0"
    unfolding handle_denied [OF m c0 k d] by auto
  with initial_context_events [of "HandlerCalled c'" h v m req il] c0 show False by simp
qed

lemma handle_thrown_early:
  "match h routes (req_method req) (req_url req) = Some m \<Longrightarrow>
   initial_context h v m req il = (Inl e, t0) \<Longrightarrow>
   handle h routes v req il = (Inl e, t0)"
  by (simp add: handle_def)

lemma guard_chain_spec_exit:
  "\<exists>n. (case fst (guard_chain_spec gs c) of
          GuardsPassed c' \<Rightarrow> c' = ctx_after gs c n
        | GuardDenied resp c' \<Rightarrow> c' = ctx_after gs c n
        | GuardThrew e c' \<Rightarrow> c' = ctx_after gs c n)"
  by (auto simp: guard_chain_spec_def split: option.split sum.split guard_result.split)

lemma guard_chain_spec_trace:
  "e \<in> set (snd (guard_chain_spec gs c)) \<Longrightarrow> \<exists>n. e = GuardCalled n (ctx_after gs c n)"
  by (auto simp: guard_chain_spec_def split: option.splits)

text \<open>Every context a matched dispatch hands out is the initial one with more locals.\<close>

lemma handle_matched:
  assumes m: "match h routes (req_method req) (req_url req) = Some m"
    and c0: "initial_context h v m req il = (Inr c0, t0)"
  shows "\<exists>t1. snd (handle h routes v req il) = t0 @ t1
      \<and> (\<forall>e \<in> set t1. \<exists>n. e = GuardCalled n (ctx_after (guards_of (rm_handler m)) c0 n)
                           \<or> e = HandlerCalled (ctx_after (guards_of (rm_handler m)) c0 n))
      \<and> (\<exists>n. case fst (handle h routes v req il) of
                Inr rr \<Rightarrow> rr_context rr = ctx_after (guards_of (rm_handler m)) c0 n
              | Inl (Thrown e a) \<Rightarrow> a = Some (ctx_after (guards_of (rm_handler m)) c0 n))"
proof -
  let ?gs = "guards_of (rm_handler m)"
  obtain x t1 where g: "guard_chain_spec ?gs c0 = (x, t1)"
    by (cases "guard_chain_spec ?gs c0")
  from guard_chain_spec_trace [of _ ?gs c0] g
  have t1: "\<forall>e \<in> set t1. \<exists>n. e = GuardCalled n (ctx_after ?gs c0 n)" by auto
  from guard_chain_spec_exit [of ?gs c0] g obtain n where
    n: "case x of GuardsPassed c' \<Rightarrow> c' = ctx_after ?gs c0 n
        | GuardDenied resp c' \<Rightarrow> c' = ctx_after ?gs c0 n
        | GuardThrew e c' \<Rightarrow> c' = ctx_after ?gs c0 n"
    by auto
  show ?thesis
  proof (cases x)
    case (GuardsPassed c')
    with n have c': "c' = ctx_after ?gs c0 n" by simp
    have "snd (handle h routes v req il) = t0 @ (t1 @ [HandlerCalled c'])"
      by (simp add: handle_def m c0 run_guards_spec g GuardsPassed split: sum.split)
    moreover have "\<forall>e \<in> set (t1 @ [HandlerCalled c']).
        \<exists>n. e = GuardCalled n (ctx_after ?gs c0 n) \<or> e = HandlerCalled (ctx_after ?gs c0 n)"
      using t1 c' by auto
    moreover have "case fst (handle h routes v req il) of
                Inr rr \<Rightarrow> rr_context rr = ctx_after ?gs c0 n
              | Inl (Thrown e a) \<Rightarrow> a = Some (ctx_after ?gs c0 n)"
      by (simp add: handle_def m c0 run_guards_spec g GuardsPassed c' split: sum.split)
    ultimately show ?thesis by blast
  next
    case (GuardDenied resp c')
    with n have c': "c' = ctx_after ?gs c0 n" by simp
    have "snd (handle h routes v req il) = t0 @ t1"
      by (simp add: handle_def m c0 run_guards_spec g GuardDenied)
    moreover have "case fst (handle h routes v req il) of
                Inr rr \<Rightarrow> rr_context rr = ctx_after ?gs c0 n
              | Inl (Thrown e a) \<Rightarrow> a = Some (ctx_after ?gs c0 n)"
      by (simp add: handle_def m c0 run_guards_spec g GuardDenied c')
    ultimately show ?thesis using t1 by blast
  next
    case (GuardThrew e c')
    with n have c': "c' = ctx_after ?gs c0 n" by simp
    have "snd (handle h routes v req il) = t0 @ t1"
      by (simp add: handle_def m c0 run_guards_spec g GuardThrew)
    moreover have "case fst (handle h routes v req il) of
                Inr rr \<Rightarrow> rr_context rr = ctx_after ?gs c0 n
              | Inl (Thrown e a) \<Rightarrow> a = Some (ctx_after ?gs c0 n)"
      by (simp add: handle_def m c0 run_guards_spec g GuardThrew c')
    ultimately show ?thesis using t1 by blast
  qed
qed

lemma handle_no_body_read:
  assumes m: "match h routes (req_method req) (req_url req) = Some m"
    and nb: "\<not> has_body_schema (rm_handler m)"
  shows "BodyRead \<notin> set (snd (handle h routes v req il))"
proof (cases "initial_context h v m req il")
  case (Pair r t0)
  from initial_context_no_read [OF nb, of h v req il] Pair have t0: "BodyRead \<notin> set t0" by simp
  show ?thesis
  proof (cases r)
    case (Inl e)
    with handle_thrown_early [OF m, of v il e t0] Pair t0 show ?thesis by simp
  next
    case (Inr c0)
    with handle_matched [OF m, of v il c0 t0] Pair t0 show ?thesis by auto
  qed
qed

lemma handle_no_body_ctx:
  assumes m: "match h routes (req_method req) (req_url req) = Some m"
    and nb: "\<not> has_body_schema (rm_handler m)"
  shows "(\<forall>rr. fst (handle h routes v req il) = Inr rr \<longrightarrow> body (raw (rr_context rr)) = JUndefined)
    \<and> (\<forall>e c. fst (handle h routes v req il) = Inl (Thrown e (Some c)) \<longrightarrow> body (raw c) = JUndefined)
    \<and> (\<forall>i c. GuardCalled i c \<in> set (snd (handle h routes v req il)) \<longrightarrow> body (raw c) = JUndefined)
    \<and> (\<forall>c. HandlerCalled c \<in> set (snd (handle h routes v req il)) \<longrightarrow> body (raw c) = JUndefined)"
proof (cases "initial_context h v m req il")
  case (Pair r t0)
  show ?thesis
  proof (cases r)
    case (Inl e)
    from initial_context_events [of _ h v m req il] Pair
    have "\<forall>e \<in> set t0. e = BodyRead \<or> is_validator_call e" by auto
    moreover from Inl Pair have "\<exists>e. fst (initial_context h v m req il) = Inl (Thrown e None)"
      by (auto simp: initial_context_def Let_def case_prod_beta split: sum.splits if_splits)
    ultimately show ?thesis
      using handle_thrown_early [OF m, of v il e t0] Pair Inl by auto
  next
    case (Inr c0)
    from initial_context_events [of _ h v m req il] Pair
    have ev: "\<forall>e \<in> set t0. e = BodyRead \<or> is_validator_call e" by auto
    from initial_context_ctx [of h v m req il c0 t0] Pair Inr nb
    have b: "body (raw c0) = JUndefined" by simp
    then have bn: "body (raw (ctx_after (guards_of (rm_handler m)) c0 n)) = JUndefined" for n
      by (simp add: ctx_after_frame)
    from handle_matched [OF m, of v il c0 t0] Pair Inr obtain t1 n where
      *: "snd (handle h routes v req il) = t0 @ t1"
         "\<forall>e \<in> set t1. \<exists>n. e = GuardCalled n (ctx_after (guards_of (rm_handler m)) c0 n)
                           \<or> e = HandlerCalled (ctx_after (guards_of (rm_handler m)) c0 n)"
         "case fst (handle h routes v req il) of
                Inr rr \<Rightarrow> rr_context rr = ctx_after (guards_of (rm_handler m)) c0 n
              | Inl (Thrown e a) \<Rightarrow> a = Some (ctx_after (guards_of (rm_handler m)) c0 n)"
      by auto
    from *(3) bn have "\<forall>rr. fst (handle h routes v req il) = Inr rr \<longrightarrow> body (raw (rr_context rr)) = JUndefined"
      by auto
    moreover from *(3) bn have "\<forall>e c. fst (handle h routes v req il) = Inl (Thrown e (Some c)) \<longrightarrow> body (raw c) = JUndefined"
      by auto
    moreover from *(1,2) ev bn have "\<forall>i c. GuardCalled i c \<in> set (snd (handle h routes v req il)) \<longrightarrow> body (raw c) = JUndefined"
      by fastforce
    moreover from *(1,2) ev bn have "\<forall>c. HandlerCalled c \<in> set (snd (handle h routes v req il)) \<longrightarrow> body (raw c) = JUndefined"
      by fastforce
    ultimately show ?thesis by blast
  qed
qed

lemma fetch_events:
  "e \<in> set (snd (fetch h cfg req)) \<Longrightarrow>
     e = OnRequestCalled
     \<or> (\<exists>il. e \<in> set (snd (handle h (setup_handlers cfg) (setup_validator cfg) req il)))
     \<or> (\<exists>c r. e = OnResponseCalled c r)
     \<or> (\<exists>err c. e = OnErrorCalled err c)"
  by (auto simp: fetch_def fetch_try_def Let_def case_prod_beta
      split: option.splits sum.splits thrown.splits prod.splits)

section \<open>The body\<close>

lemma parseBody_empty_text:
  "req_body req = BodyText [] \<Longrightarrow>
   parseBody h req = (Inr \<lparr>parsed = JUndefined, error = None\<rparr>, [BodyRead])"
  by (simp add: parseBody_def parseBody_try_def)

lemma parseBody_invalid_json:
  "req_body req = BodyText txt \<Longrightarrow> txt \<noteq> [] \<Longrightarrow> JSON_parse h txt = Inl msg \<Longrightarrow>
   parseBody h req =
     (Inr \<lparr>parsed = JUndefined, error = Some (SyntaxError msg)\<rparr>, [BodyRead])"
  by (simp add: parseBody_def parseBody_try_def)

lemma validateInputs_parse_error:
  assumes b: "schemas_body s = Some sc"
  shows "validateInputs (Some v) (Some s) rawv (Some perr) =
     (let P = part_outcome v (schemas_params s) (JObj (params rawv)) None Params;
          Q = part_outcome v (schemas_query s) (JObj (query rawv)) None Query
      in (Inr (InputErr
                 ((if part_failed (fst P) then [Params] else []) @
                  (if part_failed (fst Q) then [Query] else []) @ [Body])
                 (outcome_issues (fst P) @ outcome_issues (fst Q) @ [invalid_json_issue])
                 \<lparr>params = params rawv, query = query rawv, body = body rawv\<rparr>
                 (Some (outcome_error Params (fst P) @ outcome_error Query (fst Q) @
                        [(Body, JErr perr)]))),
          snd P @ snd Q))"
proof -
  obtain op cp where P:
    "part_outcome v (schemas_params s) (JObj (params rawv)) None Params = (op, cp)"
    by (cases "part_outcome v (schemas_params s) (JObj (params rawv)) None Params")
  obtain oq cq where Q:
    "part_outcome v (schemas_query s) (JObj (query rawv)) None Query = (oq, cq)"
    by (cases "part_outcome v (schemas_query s) (JObj (query rawv)) None Query")
  have B: "part_outcome v (schemas_body s) (body rawv) (Some perr) Body
      = (PartFailed [invalid_json_issue] (JErr perr), [])"
    by (simp add: part_outcome_def b)
  show ?thesis
    unfolding validateInputs_refines validate_spec_def
    by (cases op; cases oq) (simp_all add: Let_def P Q B)
qed

lemma validateInputs_parse_error_no_body_call:
  assumes b: "schemas_body s = Some sc"
  shows "ValidatorCalled sc' x Body \<notin> set (snd (validateInputs (Some v) (Some s) rawv (Some perr)))"
  unfolding validateInputs_parse_error [OF b]
  by (auto simp: Let_def dest: part_outcome_calls)

lemma initial_context_body:
  assumes hb: "has_body_schema (rm_handler m)"
    and pb: "parseBody h req = (Inr \<lparr>parsed = bv, error = perr\<rparr>, t1)"
  shows "initial_context h vo m req il =
     (case validateInputs vo (schemas (rm_handler m))
             \<lparr>params = rm_params m, query = parseQuery h (req_url req), body = bv\<rparr> perr of
        (Inl e, t2) \<Rightarrow> (Inl (Thrown e None), t1 @ t2)
      | (Inr i, t2) \<Rightarrow>
          (Inr \<lparr>request = req,
                raw = \<lparr>params = rm_params m, query = parseQuery h (req_url req), body = bv\<rparr>,
                input = i, locals = il\<rparr>,
           t1 @ t2))"
  by (simp add: initial_context_def hb pb Let_def case_prod_beta split: sum.split prod.split)

lemma parseBody_total: "\<exists>r t. parseBody h req = (Inr r, t)"
  by (simp add: parseBody_def split: sum.split)

lemma parseBody_captures:
  "req_body req \<noteq> NoBody \<Longrightarrow> parseBody_try h req = Inl e \<Longrightarrow>
   parseBody h req =
     (Inr \<lparr>parsed = JUndefined,
           error = Some (if is_SyntaxError e then e else SyntaxError ''Invalid JSON'')\<rparr>,
      [BodyRead])"
  by (simp add: parseBody_def)

lemma parseBody_error_is_SyntaxError:
  "parseBody h req = (Inr r, t) \<Longrightarrow> error r = Some e \<Longrightarrow>
     is_SyntaxError e \<and> parsed r = JUndefined \<and> t = [BodyRead]"
  by (auto simp: parseBody_def parseBody_try_def
      split: if_splits sum.splits body_source.splits)

lemma has_body_schema_Some:
  "has_body_schema r \<Longrightarrow> \<exists>s sc. schemas r = Some s \<and> schemas_body s = Some sc"
  by (auto simp: has_body_schema_def split: option.splits)

lemma initial_context_parse_error:
  assumes hb: "has_body_schema (rm_handler m)"
    and pb: "parseBody h req = (Inr r, t)"
    and er: "error r = Some e"
  shows "\<exists>c0 t0 fs iss es.
     initial_context h (Some v) m req il = (Inr c0, t0)
     \<and> input c0 = InputErr (fs @ [Body]) (iss @ [invalid_json_issue])
         \<lparr>params = rm_params m, query = parseQuery h (req_url req), body = JUndefined\<rparr>
         (Some (es @ [(Body, JErr e)]))"
proof -
  from parseBody_error_is_SyntaxError [OF pb er]
  have "parsed r = JUndefined" and t: "t = [BodyRead]" by simp_all
  with er have r: "r = \<lparr>parsed = JUndefined, error = Some e\<rparr>" by (cases r) simp
  from has_body_schema_Some [OF hb] obtain s sc where
    s: "schemas (rm_handler m) = Some s" and sb: "schemas_body s = Some sc" by blast
  let ?raw = "\<lparr>params = rm_params m, query = parseQuery h (req_url req), body = JUndefined\<rparr>"
  let ?P = "part_outcome v (schemas_params s) (JObj (params ?raw)) None Params"
  let ?Q = "part_outcome v (schemas_query s) (JObj (query ?raw)) None Query"
  let ?i = "InputErr
                 (((if part_failed (fst ?P) then [Params] else []) @
                  (if part_failed (fst ?Q) then [Query] else [])) @ [Body])
                 ((outcome_issues (fst ?P) @ outcome_issues (fst ?Q)) @ [invalid_json_issue])
                 ?raw
                 (Some ((outcome_error Params (fst ?P) @ outcome_error Query (fst ?Q)) @
                        [(Body, JErr e)]))"
  have vi: "validateInputs (Some v) (Some s) ?raw (Some e) = (Inr ?i, snd ?P @ snd ?Q)"
    unfolding validateInputs_parse_error [OF sb] by (simp add: Let_def)
  have pb': "parseBody h req = (Inr \<lparr>parsed = JUndefined, error = Some e\<rparr>, [BodyRead])"
    using pb r t by simp
  have "initial_context h (Some v) m req il =
     (Inr \<lparr>request = req, raw = ?raw, input = ?i, locals = il\<rparr>, [BodyRead] @ snd ?P @ snd ?Q)"
    unfolding initial_context_body [OF hb pb'] s vi by simp
  moreover have "input \<lparr>request = req, raw = ?raw, input = ?i, locals = il\<rparr> = ?i" by simp
  ultimately show ?thesis by blast
qed

section \<open>The lifecycle wrapper\<close>

lemma fetch_try_hook_throws:
  "initial_locals cfg req = Inl e \<Longrightarrow>
   fetch_try h hs v (setup_onRequest cfg) onResp req = (Inl (Thrown e None), [OnRequestCalled])"
  by (auto simp: initial_locals_def fetch_try_def split: option.splits sum.splits)

lemma fetch_try_dispatch:
  "initial_locals cfg req = Inr il \<Longrightarrow>
   fetch_try h hs v (setup_onRequest cfg) onResp req =
     (case handle h hs v req il of
        (Inl e, t1) \<Rightarrow> (Inl e, (if setup_onRequest cfg = None then [] else [OnRequestCalled]) @ t1)
      | (Inr rr, t1) \<Rightarrow>
          (case onResp of
             Some f \<Rightarrow>
               (case f (rr_context rr) (rr_response rr) of
                  Inr updatedResponse \<Rightarrow>
                    (Inr updatedResponse,
                     (if setup_onRequest cfg = None then [] else [OnRequestCalled]) @ t1
                       @ [OnResponseCalled (rr_context rr) (rr_response rr)])
                | Inl e \<Rightarrow>
                    (Inl (Thrown e None),
                     (if setup_onRequest cfg = None then [] else [OnRequestCalled]) @ t1
                       @ [OnResponseCalled (rr_context rr) (rr_response rr)]))
           | None \<Rightarrow>
               (Inr (rr_response rr),
                (if setup_onRequest cfg = None then [] else [OnRequestCalled]) @ t1)))"
  by (auto simp: initial_locals_def fetch_try_def split: option.splits sum.splits prod.splits)

lemma validateInputs_no_validator:
  "validateInputs None (Some s) rawv perr = (Inl validator_required, [])"
  by (simp add: validateInputs_def)

lemma initial_context_no_validator:
  "schemas (rm_handler m) = Some s \<Longrightarrow>
   initial_context h None m req il =
     (Inl (Thrown validator_required None),
      if has_body_schema (rm_handler m) then snd (parseBody h req) else [])"
  using parseBody_total [of h req]
  by (auto simp: initial_context_def validateInputs_no_validator Let_def)

lemma handle_no_validator:
  "match h routes (req_method req) (req_url req) = Some m \<Longrightarrow>
   schemas (rm_handler m) = Some s \<Longrightarrow>
   handle h routes None req il =
     (Inl (Thrown validator_required None),
      if has_body_schema (rm_handler m) then snd (parseBody h req) else [])"
  by (simp add: handle_def initial_context_no_validator)

lemma handle_not_found:
  "match h routes (req_method req) (req_url req) = None \<Longrightarrow>
   handle h routes v req il =
     (Inr \<lparr>rr_response = \<lparr>status = 404, resp_body = TextBody ''Not Found''\<rparr>,
           rr_context =
             \<lparr>request = req,
              raw = \<lparr>params = [], query = [], body = JUndefined\<rparr>,
              input = InputOk (JObj []) (JObj []) JUndefined,
              locals = Map.empty\<rparr>\<rparr>,
      [])"
  by (simp add: handle_def not_found_def)

lemma fetch_thrown:
  "fetch_try h (setup_handlers cfg) (setup_validator cfg) (setup_onRequest cfg)
      (setup_onResponse cfg) req = (Inl (Thrown err attached), t) \<Longrightarrow>
   fetch h cfg req =
     (setup_onError cfg err
        (case attached of
           Some c \<Rightarrow> c
         | None \<Rightarrow>
             \<lparr>request = req,
              raw = \<lparr>params = [], query = [], body = JUndefined\<rparr>,
              input = InputOk (JObj []) (JObj []) JUndefined,
              locals = Map.empty\<rparr>),
      t @ [OnErrorCalled err
             (case attached of
                Some c \<Rightarrow> c
              | None \<Rightarrow>
                  \<lparr>request = req,
                   raw = \<lparr>params = [], query = [], body = JUndefined\<rparr>,
                   input = InputOk (JObj []) (JObj []) JUndefined,
                   locals = Map.empty\<rparr>)])"
  by (simp add: fetch_def Let_def)

lemma fetch_returned:
  "fetch_try h (setup_handlers cfg) (setup_validator cfg) (setup_onRequest cfg)
      (setup_onResponse cfg) req = (Inr resp, t) \<Longrightarrow>
   fetch h cfg req = (Inr resp, t)"
  by (simp add: fetch_def)

lemma fetch_no_validator:
  assumes v: "setup_validator cfg = None"
    and m: "match h (setup_handlers cfg) (req_method req) (req_url req) = Some m"
    and s: "schemas (rm_handler m) = Some s"
  shows "\<exists>t. fetch h cfg req =
     (setup_onError cfg
        (case initial_locals cfg req of Inl e \<Rightarrow> e | Inr il \<Rightarrow> validator_required)
        \<lparr>request = req,
         raw = \<lparr>params = [], query = [], body = JUndefined\<rparr>,
         input = InputOk (JObj []) (JObj []) JUndefined,
         locals = Map.empty\<rparr>,
      t @ [OnErrorCalled
             (case initial_locals cfg req of Inl e \<Rightarrow> e | Inr il \<Rightarrow> validator_required)
             \<lparr>request = req,
              raw = \<lparr>params = [], query = [], body = JUndefined\<rparr>,
              input = InputOk (JObj []) (JObj []) JUndefined,
              locals = Map.empty\<rparr>])
     \<and> (\<forall>e \<in> set t. e = OnRequestCalled \<or> e = BodyRead)"
proof (cases "initial_locals cfg req")
  case (Inl e)
  from fetch_thrown [of h cfg req e None "[OnRequestCalled]"]
    fetch_try_hook_throws [OF Inl, of h "setup_handlers cfg" "setup_validator cfg" "setup_onResponse cfg"]
  show ?thesis by (simp add: Inl)
next
  case (Inr il)
  let ?pre = "if setup_onRequest cfg = None then [] else [OnRequestCalled]"
  let ?t = "if has_body_schema (rm_handler m) then snd (parseBody h req) else []"
  have "fetch_try h (setup_handlers cfg) (setup_validator cfg) (setup_onRequest cfg)
      (setup_onResponse cfg) req = (Inl (Thrown validator_required None), ?pre @ ?t)"
    unfolding fetch_try_dispatch [OF Inr] v handle_no_validator [OF m s] by simp
  from fetch_thrown [OF this]
  have "fetch h cfg req =
     (setup_onError cfg validator_required
        \<lparr>request = req,
         raw = \<lparr>params = [], query = [], body = JUndefined\<rparr>,
         input = InputOk (JObj []) (JObj []) JUndefined,
         locals = Map.empty\<rparr>,
      (?pre @ ?t) @ [OnErrorCalled validator_required
             \<lparr>request = req,
              raw = \<lparr>params = [], query = [], body = JUndefined\<rparr>,
              input = InputOk (JObj []) (JObj []) JUndefined,
              locals = Map.empty\<rparr>])"
    by simp
  moreover have "\<forall>e \<in> set (?pre @ ?t). e = OnRequestCalled \<or> e = BodyRead"
    by (simp add: parseBody_trace)
  ultimately show ?thesis unfolding Inr by (intro exI [of _ "?pre @ ?t"]) simp
qed

lemma fetch_with_response_hook:
  assumes f: "setup_onResponse cfg = Some f"
    and il: "initial_locals cfg req = Inr il"
    and h: "handle h (setup_handlers cfg) (setup_validator cfg) req il = (Inr rr, t1)"
    and r: "f (rr_context rr) (rr_response rr) = Inr resp'"
  shows "fetch h cfg req =
     (Inr resp',
      (if setup_onRequest cfg = None then [] else [OnRequestCalled]) @ t1
        @ [OnResponseCalled (rr_context rr) (rr_response rr)])"
  by (rule fetch_returned) (simp add: fetch_try_dispatch [OF il] h f r)

lemma fetch_without_response_hook:
  assumes f: "setup_onResponse cfg = None"
    and il: "initial_locals cfg req = Inr il"
    and h: "handle h (setup_handlers cfg) (setup_validator cfg) req il = (Inr rr, t1)"
  shows "fetch h cfg req =
     (Inr (rr_response rr), (if setup_onRequest cfg = None then [] else [OnRequestCalled]) @ t1)"
  by (rule fetch_returned) (simp add: fetch_try_dispatch [OF il] h f)

text \<open>
  C3. Group-level guards are prepended to the guards of every handler of the grouping,
  also through a nested grouping; the guard loop calls the guards in the order of the
  list, each on the context accumulated so far, up to and including the first one that
  does not allow; when that one denies, the dispatcher returns the denial's response and
  neither a later guard nor the handler is called.
\<close>

theorem guard_chain_order_and_denial:
  "map guards_of (group items gs_opt) =
     map (\<lambda>r. (case gs_opt of None \<Rightarrow> [] | Some gs \<Rightarrow> gs) @ guards_of r)
       (concat (map flat_handlers items))
   \<and> map guards_of (group [Nested (map Single (group inner gi))] go) =
     map (\<lambda>r. (case go of None \<Rightarrow> [] | Some gs \<Rightarrow> gs) @
               (case gi of None \<Rightarrow> [] | Some gs \<Rightarrow> gs) @ guards_of r)
       (concat (map flat_handlers inner))
   \<and> run_guards gs 0 c = guard_chain_spec gs c
   \<and> (stop_index gs c = Some k \<longrightarrow>
        k < length gs \<and> \<not> allows gs c k \<and> (\<forall>n<k. allows gs c n))
   \<and> (match h routes (req_method req) (req_url req) = Some m
        \<and> initial_context h v m req il = (Inr c0, t0)
        \<and> stop_index (guards_of (rm_handler m)) c0 = Some j
        \<and> (guards_of (rm_handler m) ! j) (ctx_after (guards_of (rm_handler m)) c0 j)
            = Inr (Deny resp)
      \<longrightarrow> handle h routes v req il =
            (Inr \<lparr>rr_response = resp,
                  rr_context = ctx_after (guards_of (rm_handler m)) c0 j\<rparr>,
             t0 @ map (\<lambda>n. GuardCalled n (ctx_after (guards_of (rm_handler m)) c0 n))
                    [0..<Suc j])
          \<and> (\<forall>c'. HandlerCalled c' \<notin> set (snd (handle h routes v req il))))"
  using group_guards_of [of items gs_opt] group_nested_guards_of [of inner gi go]
    run_guards_spec [of gs c] stop_index_Some [of gs c k]
    handle_denied [of h routes req m v il c0 t0 j resp]
    handle_denied_no_handler [of h routes req m v il c0 t0 j resp]
  by blast

lemma ex_admin_routes_eq: "ex_admin_routes = [(ex_route ''GET'' ''/admin'')\<lparr>guards := Some [ex_guard_user, ex_guard_deny, ex_guard_throw]\<rparr>]"
  by (simp add: ex_admin_routes_def group_flat guards_of_def ex_route_def)

theorem guard_chain_order_and_denial_witness:
  "handle ex_host ex_admin_routes None (ex_request ''GET'' ''http://localhost/admin'' NoBody)
     Map.empty
   = (Inr \<lparr>rr_response = forbidden,
           rr_context =
             \<lparr>request = ex_request ''GET'' ''http://localhost/admin'' NoBody,
              raw = \<lparr>params = [], query = [], body = JUndefined\<rparr>,
              input = InputOk (JObj []) (JObj []) JUndefined,
              locals = [''user'' \<mapsto> JStr ''alice'', ''role'' \<mapsto> JStr ''guest'']\<rparr>\<rparr>,
      [GuardCalled 0
         \<lparr>request = ex_request ''GET'' ''http://localhost/admin'' NoBody,
          raw = \<lparr>params = [], query = [], body = JUndefined\<rparr>,
          input = InputOk (JObj []) (JObj []) JUndefined,
          locals = Map.empty\<rparr>,
       GuardCalled 1
         \<lparr>request = ex_request ''GET'' ''http://localhost/admin'' NoBody,
          raw = \<lparr>params = [], query = [], body = JUndefined\<rparr>,
          input = InputOk (JObj []) (JObj []) JUndefined,
          locals = [''user'' \<mapsto> JStr ''alice'', ''role'' \<mapsto> JStr ''guest'']\<rparr>])"
proof -
  let ?req = "ex_request ''GET'' ''http://localhost/admin'' NoBody"
  let ?r = "(ex_route ''GET'' ''/admin'')\<lparr>guards := Some [ex_guard_user, ex_guard_deny, ex_guard_throw]\<rparr>"
  let ?m = "\<lparr>rm_handler = ?r, rm_params = []\<rparr>"
  let ?c0 = "\<lparr>request = ?req, raw = \<lparr>params = [], query = [], body = JUndefined\<rparr>,
          input = InputOk (JObj []) (JObj []) JUndefined, locals = Map.empty\<rparr>"
  have m: "match ex_host ex_admin_routes (req_method ?req) (req_url ?req) = Some ?m"
    by (simp add: ex_admin_routes_eq ex_host_def ex_route_def ex_request_def copy_groups_def)
  have c0: "initial_context ex_host None ?m ?req Map.empty = (Inr ?c0, [])"
    by (simp add: initial_context_def has_body_schema_def ex_route_def validateInputs_def
        parseQuery_def ex_host_def ex_request_def)
  have g: "guards_of ?r = [ex_guard_user, ex_guard_deny, ex_guard_throw]"
    by (simp add: guards_of_def)
  have k: "stop_index (guards_of (rm_handler ?m)) ?c0 = Some (Suc 0)"
    by (simp add: g stop_index_def allows_def ex_guard_user_def ex_guard_deny_def
        upt_rec [of 0] upt_rec [of "Suc 0"] )
  have d: "(guards_of (rm_handler ?m) ! Suc 0) (ctx_after (guards_of (rm_handler ?m)) ?c0 (Suc 0))
      = Inr (Deny forbidden)"
    by (simp add: g ex_guard_deny_def)
  from guard_chain_order_and_denial [of _ _ _ _ _ _ _ _ ex_host ex_admin_routes ?req ?m None Map.empty ?c0 "[]" "Suc 0" forbidden]
    m c0 k d
  have "handle ex_host ex_admin_routes None ?req Map.empty =
            (Inr \<lparr>rr_response = forbidden,
                  rr_context = ctx_after (guards_of (rm_handler ?m)) ?c0 (Suc 0)\<rparr>,
             [] @ map (\<lambda>n. GuardCalled n (ctx_after (guards_of (rm_handler ?m)) ?c0 n))
                    [0..<Suc (Suc 0)])"
    by blast
  then show ?thesis
    by (simp add: g patch_of_def ex_guard_user_def)
qed







text \<open>
  C6. When the matched route declares no body schema, the dispatcher never reads the
  body, whatever the request carries, and every context it hands to a guard or the
  handler, returns, or attaches to a thrown error has no raw body; nor does the
  lifecycle wrapper around it read the body.
\<close>

theorem no_body_schema_no_read:
  "(match h routes (req_method req) (req_url req) = Some m \<and> \<not> has_body_schema (rm_handler m)
    \<longrightarrow> BodyRead \<notin> set (snd (handle h routes v req il))
      \<and> (\<forall>rr. fst (handle h routes v req il) = Inr rr
            \<longrightarrow> body (raw (rr_context rr)) = JUndefined)
      \<and> (\<forall>e c. fst (handle h routes v req il) = Inl (Thrown e (Some c))
            \<longrightarrow> body (raw c) = JUndefined)
      \<and> (\<forall>i c. GuardCalled i c \<in> set (snd (handle h routes v req il))
            \<longrightarrow> body (raw c) = JUndefined)
      \<and> (\<forall>c. HandlerCalled c \<in> set (snd (handle h routes v req il))
            \<longrightarrow> body (raw c) = JUndefined))
   \<and> (match h (setup_handlers cfg) (req_method req) (req_url req) = Some m'
        \<and> \<not> has_body_schema (rm_handler m')
      \<longrightarrow> BodyRead \<notin> set (snd (fetch h cfg req)))"
proof (intro conjI impI)
  assume a: "match h routes (req_method req) (req_url req) = Some m \<and> \<not> has_body_schema (rm_handler m)"
  then show "BodyRead \<notin> set (snd (handle h routes v req il))"
    using handle_no_body_read [of h routes req m v il] by blast
  from a handle_no_body_ctx [of h routes req m v il]
  show "\<forall>rr. fst (handle h routes v req il) = Inr rr \<longrightarrow> body (raw (rr_context rr)) = JUndefined"
    "\<forall>e c. fst (handle h routes v req il) = Inl (Thrown e (Some c)) \<longrightarrow> body (raw c) = JUndefined"
    "\<forall>i c. GuardCalled i c \<in> set (snd (handle h routes v req il)) \<longrightarrow> body (raw c) = JUndefined"
    "\<forall>c. HandlerCalled c \<in> set (snd (handle h routes v req il)) \<longrightarrow> body (raw c) = JUndefined"
    by blast+
next
  assume a: "match h (setup_handlers cfg) (req_method req) (req_url req) = Some m'
        \<and> \<not> has_body_schema (rm_handler m')"
  show "BodyRead \<notin> set (snd (fetch h cfg req))"
  proof
    assume "BodyRead \<in> set (snd (fetch h cfg req))"
    from fetch_events [OF this] obtain il where
      "BodyRead \<in> set (snd (handle h (setup_handlers cfg) (setup_validator cfg) req il))"
      by auto
    with a handle_no_body_read [of h "setup_handlers cfg" req m' "setup_validator cfg" il]
    show False by blast
  qed
qed

theorem no_body_schema_no_read_witness:
  "match ex_host [ex_route ''POST'' ''/data''] ''POST'' ''http://localhost/data''
     = Some \<lparr>rm_handler = ex_route ''POST'' ''/data'', rm_params = []\<rparr>
   \<and> \<not> has_body_schema (ex_route ''POST'' ''/data'')
   \<and> BodyRead \<notin> set (snd (handle ex_host [ex_route ''POST'' ''/data''] None
        (ex_request ''POST'' ''http://localhost/data'' (BodyText ''[1]'')) Map.empty))
   \<and> BodyRead \<notin> set (snd (fetch ex_host (HandlerArray [ex_route ''POST'' ''/data''])
        (ex_request ''POST'' ''http://localhost/data'' (BodyText ''[1]''))))
   \<and> handle ex_host [ex_route ''POST'' ''/data''] None
        (ex_request ''POST'' ''http://localhost/data'' (BodyText ''[1]'')) Map.empty
     = (Inr \<lparr>rr_response = ok_response,
             rr_context =
               \<lparr>request = ex_request ''POST'' ''http://localhost/data'' (BodyText ''[1]''),
                raw = \<lparr>params = [], query = [], body = JUndefined\<rparr>,
                input = InputOk (JObj []) (JObj []) JUndefined,
                locals = Map.empty\<rparr>\<rparr>,
        [HandlerCalled
           \<lparr>request = ex_request ''POST'' ''http://localhost/data'' (BodyText ''[1]''),
            raw = \<lparr>params = [], query = [], body = JUndefined\<rparr>,
            input = InputOk (JObj []) (JObj []) JUndefined,
            locals = Map.empty\<rparr>])"
proof -
  let ?req = "ex_request ''POST'' ''http://localhost/data'' (BodyText ''[1]'')"
  let ?m = "\<lparr>rm_handler = ex_route ''POST'' ''/data'', rm_params = []\<rparr>"
  have m: "match ex_host [ex_route ''POST'' ''/data''] ''POST'' ''http://localhost/data'' = Some ?m"
    by (simp add: ex_host_def ex_route_def copy_groups_def)
  then have m': "match ex_host [ex_route ''POST'' ''/data''] (req_method ?req) (req_url ?req) = Some ?m"
    by (simp add: ex_request_def)
  have nb: "\<not> has_body_schema (ex_route ''POST'' ''/data'')"
    by (simp add: has_body_schema_def ex_route_def)
  from no_body_schema_no_read [of ex_host "[ex_route ''POST'' ''/data'']" ?req ?m None Map.empty
      "HandlerArray [ex_route ''POST'' ''/data'']" ?m] m' nb
  have r: "BodyRead \<notin> set (snd (handle ex_host [ex_route ''POST'' ''/data''] None ?req Map.empty))"
    "BodyRead \<notin> set (snd (fetch ex_host (HandlerArray [ex_route ''POST'' ''/data'']) ?req))"
    by (simp_all add: setup_handlers_def)
  have h: "handle ex_host [ex_route ''POST'' ''/data''] None ?req Map.empty
     = (Inr \<lparr>rr_response = ok_response,
             rr_context =
               \<lparr>request = ?req, raw = \<lparr>params = [], query = [], body = JUndefined\<rparr>,
                input = InputOk (JObj []) (JObj []) JUndefined, locals = Map.empty\<rparr>\<rparr>,
        [HandlerCalled
           \<lparr>request = ?req, raw = \<lparr>params = [], query = [], body = JUndefined\<rparr>,
            input = InputOk (JObj []) (JObj []) JUndefined, locals = Map.empty\<rparr>])"
    by (simp add: handle_def initial_context_def has_body_schema_def validateInputs_def
        parseQuery_def guards_of_def ex_route_def ex_host_def ex_request_def copy_groups_def)
  from m nb r h show ?thesis by blast
qed

text \<open>
  C5. With a body schema on the matched route, an empty body text gives an undefined
  raw body and no parse error, and the validation runs on it as on any absent body; a
  non-empty text that is not JSON gives an undefined raw body and a parse error, which the
  validation gate, given an adapter, turns into the one issue
  \<open>part = Body, path = [], message = Invalid JSON\<close> after the issues of params and query,
  without calling the adapter for the body.
\<close>

theorem body_schema_empty_and_invalid_json:
  "invalid_json_issue =
     \<lparr>part = Body, issue_path = [], message = ''Invalid JSON'', code = None\<rparr>
   \<and> (req_body req = BodyText [] \<longrightarrow>
        parseBody h req = (Inr \<lparr>parsed = JUndefined, error = None\<rparr>, [BodyRead]))
   \<and> (req_body req = BodyText txt \<and> txt \<noteq> [] \<and> JSON_parse h txt = Inl msg \<longrightarrow>
        parseBody h req =
          (Inr \<lparr>parsed = JUndefined, error = Some (SyntaxError msg)\<rparr>, [BodyRead]))
   \<and> (has_body_schema (rm_handler m) \<and> req_body req = BodyText [] \<longrightarrow>
        initial_context h vo m req il =
          (case validateInputs vo (schemas (rm_handler m))
                  \<lparr>params = rm_params m, query = parseQuery h (req_url req),
                   body = JUndefined\<rparr> None of
             (Inl e, t2) \<Rightarrow> (Inl (Thrown e None), [BodyRead] @ t2)
           | (Inr i, t2) \<Rightarrow>
               (Inr \<lparr>request = req,
                     raw = \<lparr>params = rm_params m, query = parseQuery h (req_url req),
                            body = JUndefined\<rparr>,
                     input = i, locals = il\<rparr>,
                [BodyRead] @ t2)))
   \<and> (has_body_schema (rm_handler m) \<and> req_body req = BodyText txt \<and> txt \<noteq> []
        \<and> JSON_parse h txt = Inl msg \<longrightarrow>
        initial_context h vo m req il =
          (case validateInputs vo (schemas (rm_handler m))
                  \<lparr>params = rm_params m, query = parseQuery h (req_url req),
                   body = JUndefined\<rparr> (Some (SyntaxError msg)) of
             (Inl e, t2) \<Rightarrow> (Inl (Thrown e None), [BodyRead] @ t2)
           | (Inr i, t2) \<Rightarrow>
               (Inr \<lparr>request = req,
                     raw = \<lparr>params = rm_params m, query = parseQuery h (req_url req),
                            body = JUndefined\<rparr>,
                     input = i, locals = il\<rparr>,
                [BodyRead] @ t2)))
   \<and> (schemas_body s = Some sc \<longrightarrow>
        validateInputs (Some v) (Some s) rawv (Some perr) =
          (let P = part_outcome v (schemas_params s) (JObj (params rawv)) None Params;
               Q = part_outcome v (schemas_query s) (JObj (query rawv)) None Query
           in (Inr (InputErr
                      ((if part_failed (fst P) then [Params] else []) @
                       (if part_failed (fst Q) then [Query] else []) @ [Body])
                      (outcome_issues (fst P) @ outcome_issues (fst Q) @ [invalid_json_issue])
                      \<lparr>params = params rawv, query = query rawv, body = body rawv\<rparr>
                      (Some (outcome_error Params (fst P) @ outcome_error Query (fst Q) @
                             [(Body, JErr perr)]))),
               snd P @ snd Q))
        \<and> (\<forall>sc' x. ValidatorCalled sc' x Body
              \<notin> set (snd (validateInputs (Some v) (Some s) rawv (Some perr)))))"
proof (intro conjI impI allI)
  show "invalid_json_issue =
     \<lparr>part = Body, issue_path = [], message = ''Invalid JSON'', code = None\<rparr>"
    by (simp add: invalid_json_issue_def)
next
  assume "req_body req = BodyText []"
  then show "parseBody h req = (Inr \<lparr>parsed = JUndefined, error = None\<rparr>, [BodyRead])"
    by (rule parseBody_empty_text)
next
  assume "req_body req = BodyText txt \<and> txt \<noteq> [] \<and> JSON_parse h txt = Inl msg"
  then show "parseBody h req =
          (Inr \<lparr>parsed = JUndefined, error = Some (SyntaxError msg)\<rparr>, [BodyRead])"
    by (simp add: parseBody_invalid_json)
next
  assume a: "has_body_schema (rm_handler m) \<and> req_body req = BodyText []"
  then have "parseBody h req = (Inr \<lparr>parsed = JUndefined, error = None\<rparr>, [BodyRead])"
    by (simp add: parseBody_empty_text)
  from initial_context_body [OF _ this, of m vo il] a
  show "initial_context h vo m req il =
          (case validateInputs vo (schemas (rm_handler m))
                  \<lparr>params = rm_params m, query = parseQuery h (req_url req),
                   body = JUndefined\<rparr> None of
             (Inl e, t2) \<Rightarrow> (Inl (Thrown e None), [BodyRead] @ t2)
           | (Inr i, t2) \<Rightarrow>
               (Inr \<lparr>request = req,
                     raw = \<lparr>params = rm_params m, query = parseQuery h (req_url req),
                            body = JUndefined\<rparr>,
                     input = i, locals = il\<rparr>,
                [BodyRead] @ t2))"
    by simp
next
  assume a: "has_body_schema (rm_handler m) \<and> req_body req = BodyText txt \<and> txt \<noteq> []
        \<and> JSON_parse h txt = Inl msg"
  then have "parseBody h req =
      (Inr \<lparr>parsed = JUndefined, error = Some (SyntaxError msg)\<rparr>, [BodyRead])"
    by (simp add: parseBody_invalid_json)
  from initial_context_body [OF _ this, of m vo il] a
  show "initial_context h vo m req il =
          (case validateInputs vo (schemas (rm_handler m))
                  \<lparr>params = rm_params m, query = parseQuery h (req_url req),
                   body = JUndefined\<rparr> (Some (SyntaxError msg)) of
             (Inl e, t2) \<Rightarrow> (Inl (Thrown e None), [BodyRead] @ t2)
           | (Inr i, t2) \<Rightarrow>
               (Inr \<lparr>request = req,
                     raw = \<lparr>params = rm_params m, query = parseQuery h (req_url req),
                            body = JUndefined\<rparr>,
                     input = i, locals = il\<rparr>,
                [BodyRead] @ t2))"
    by simp
next
  assume b: "schemas_body s = Some sc"
  show "validateInputs (Some v) (Some s) rawv (Some perr) =
          (let P = part_outcome v (schemas_params s) (JObj (params rawv)) None Params;
               Q = part_outcome v (schemas_query s) (JObj (query rawv)) None Query
           in (Inr (InputErr
                      ((if part_failed (fst P) then [Params] else []) @
                       (if part_failed (fst Q) then [Query] else []) @ [Body])
                      (outcome_issues (fst P) @ outcome_issues (fst Q) @ [invalid_json_issue])
                      \<lparr>params = params rawv, query = query rawv, body = body rawv\<rparr>
                      (Some (outcome_error Params (fst P) @ outcome_error Query (fst Q) @
                             [(Body, JErr perr)]))),
               snd P @ snd Q))"
    by (rule validateInputs_parse_error [OF b])
  fix sc' x
  show "ValidatorCalled sc' x Body
              \<notin> set (snd (validateInputs (Some v) (Some s) rawv (Some perr)))"
    by (rule validateInputs_parse_error_no_body_call [OF b])
qed

theorem body_schema_empty_and_invalid_json_witness:
  "initial_context ex_host (Some ex_validator) \<lparr>rm_handler = ex_body_route, rm_params = []\<rparr>
     (ex_request ''POST'' ''http://localhost/data'' (BodyText ''not json{'')) Map.empty
   = (Inr \<lparr>request = ex_request ''POST'' ''http://localhost/data'' (BodyText ''not json{''),
           raw = \<lparr>params = [], query = [], body = JUndefined\<rparr>,
           input = InputErr [Body]
             [\<lparr>part = Body, issue_path = [], message = ''Invalid JSON'', code = None\<rparr>]
             \<lparr>params = [], query = [], body = JUndefined\<rparr>
             (Some [(Body, JErr (SyntaxError ''Unexpected token''))]),
           locals = Map.empty\<rparr>,
      [BodyRead])
   \<and> initial_context ex_host (Some ex_validator) \<lparr>rm_handler = ex_body_route, rm_params = []\<rparr>
     (ex_request ''POST'' ''http://localhost/data'' (BodyText [])) Map.empty
   = (Inr \<lparr>request = ex_request ''POST'' ''http://localhost/data'' (BodyText []),
           raw = \<lparr>params = [], query = [], body = JUndefined\<rparr>,
           input = InputOk (JObj []) (JObj []) JUndefined,
           locals = Map.empty\<rparr>,
      [BodyRead, ValidatorCalled (Schema ''accept'') JUndefined Body])"
proof -
  let ?m = "\<lparr>rm_handler = ex_body_route, rm_params = []\<rparr>"
  let ?s = "\<lparr>schemas_params = None, schemas_query = None, schemas_body = Some (Schema ''accept'')\<rparr>"
  let ?bad = "ex_request ''POST'' ''http://localhost/data'' (BodyText ''not json{'')"
  let ?empty = "ex_request ''POST'' ''http://localhost/data'' (BodyText [])"
  have hb: "has_body_schema (rm_handler ?m)"
    by (simp add: has_body_schema_def ex_body_route_def ex_route_def)
  have sch: "schemas ex_body_route = Some ?s"
    by (simp add: ex_body_route_def ex_route_def)
  have bad: "req_body ?bad = BodyText ''not json{'' \<and> ''not json{'' \<noteq> []
      \<and> JSON_parse ex_host ''not json{'' = Inl ''Unexpected token''"
    by (simp add: ex_request_def ex_host_def)
  have empty: "req_body ?empty = BodyText []"
    by (simp add: ex_request_def)
  note C = body_schema_empty_and_invalid_json
    [of _ _ _ _ ?m _ _ ?s "Schema ''accept''" ex_validator
      "\<lparr>params = [], query = [], body = JUndefined\<rparr>" "SyntaxError ''Unexpected token''"]
  have v: "validateInputs (Some ex_validator) (Some ?s)
        \<lparr>params = [], query = [], body = JUndefined\<rparr> (Some (SyntaxError ''Unexpected token''))
      = (Inr (InputErr [Body] [invalid_json_issue] \<lparr>params = [], query = [], body = JUndefined\<rparr>
           (Some [(Body, JErr (SyntaxError ''Unexpected token''))])), [])"
    using C by (simp add: part_outcome_def)
  have 1: "initial_context ex_host (Some ex_validator) ?m ?bad Map.empty =
      (Inr \<lparr>request = ?bad, raw = \<lparr>params = [], query = [], body = JUndefined\<rparr>,
           input = InputErr [Body] [invalid_json_issue] \<lparr>params = [], query = [], body = JUndefined\<rparr>
             (Some [(Body, JErr (SyntaxError ''Unexpected token''))]),
           locals = Map.empty\<rparr>, [BodyRead])"
    using body_schema_empty_and_invalid_json
      [of ?bad ex_host "''not json{''" "''Unexpected token''" ?m "Some ex_validator" Map.empty] hb bad
    by (simp add: sch v parseQuery_def ex_host_def)
  have 2: "initial_context ex_host (Some ex_validator) ?m ?empty Map.empty =
      (Inr \<lparr>request = ?empty, raw = \<lparr>params = [], query = [], body = JUndefined\<rparr>,
           input = InputOk (JObj []) (JObj []) JUndefined, locals = Map.empty\<rparr>,
       [BodyRead, ValidatorCalled (Schema ''accept'') JUndefined Body])"
    using body_schema_empty_and_invalid_json
      [of ?empty ex_host _ _ ?m "Some ex_validator" Map.empty] hb empty
    by (simp add: sch validateInputs_refines validate_spec_def part_outcome_def ex_validator_def
        parseQuery_def ex_host_def)
  from 1 2 show ?thesis by (simp add: invalid_json_issue_def)
qed

text \<open>
  C10, as the code has it. \<^verbatim>\<open>parseBody\<close> always returns. Whatever is thrown while the
  body is read or parsed (a rejected read, or the SyntaxError of \<^verbatim>\<open>JSON.parse\<close>) is
  returned as the \<open>error\<close> of the result, next to an undefined \<open>parsed\<close>; a thrown value
  that is not a SyntaxError is replaced by a SyntaxError with the message \<open>Invalid JSON\<close>;
  so a returned error is always a SyntaxError. In the dispatcher, when an adapter is
  configured, such an error ends as the failure variant whose last issue is the Invalid
  JSON issue, and nothing is thrown; when none is configured, the validation throws the
  missing-validator error before it looks at the parse error, and that error, with no
  context, is what leaves the dispatcher.
\<close>

theorem parseBody_never_throws:
  "(\<exists>r t. parseBody h req = (Inr r, t))
   \<and> (req_body req \<noteq> NoBody \<and> parseBody_try h req = Inl e \<longrightarrow>
        parseBody h req =
          (Inr \<lparr>parsed = JUndefined,
                error = Some (if is_SyntaxError e then e else SyntaxError ''Invalid JSON'')\<rparr>,
           [BodyRead]))
   \<and> (req_body req = BodyFails e \<longrightarrow> parseBody_try h req = Inl e)
   \<and> (req_body req = BodyText txt \<and> txt \<noteq> [] \<and> JSON_parse h txt = Inl msg \<longrightarrow>
        parseBody_try h req = Inl (SyntaxError msg))
   \<and> (parseBody h req = (Inr r, t) \<and> error r = Some e' \<longrightarrow>
        is_SyntaxError e' \<and> parsed r = JUndefined)
   \<and> (has_body_schema (rm_handler m) \<and> parseBody h req = (Inr r, t) \<and> error r = Some e' \<longrightarrow>
        (\<exists>c0 t0 fs iss es.
           initial_context h (Some v) m req il = (Inr c0, t0)
           \<and> input c0 =
               InputErr (fs @ [Body]) (iss @ [invalid_json_issue])
                 \<lparr>params = rm_params m, query = parseQuery h (req_url req),
                  body = JUndefined\<rparr>
                 (Some (es @ [(Body, JErr e')]))))
   \<and> (has_body_schema (rm_handler m) \<longrightarrow>
        initial_context h None m req il =
          (Inl (Thrown validator_required None), snd (parseBody h req)))"
proof (intro conjI impI)
  show "\<exists>r t. parseBody h req = (Inr r, t)" by (rule parseBody_total)
next
  assume "req_body req \<noteq> NoBody \<and> parseBody_try h req = Inl e"
  then show "parseBody h req =
          (Inr \<lparr>parsed = JUndefined,
                error = Some (if is_SyntaxError e then e else SyntaxError ''Invalid JSON'')\<rparr>,
           [BodyRead])"
    by (simp add: parseBody_captures)
next
  assume "req_body req = BodyFails e"
  then show "parseBody_try h req = Inl e" by (simp add: parseBody_try_def)
next
  assume "req_body req = BodyText txt \<and> txt \<noteq> [] \<and> JSON_parse h txt = Inl msg"
  then show "parseBody_try h req = Inl (SyntaxError msg)" by (simp add: parseBody_try_def)
next
  assume a: "parseBody h req = (Inr r, t) \<and> error r = Some e'"
  with parseBody_error_is_SyntaxError [of h req r t e']
  show "is_SyntaxError e'" "parsed r = JUndefined" by simp_all
next
  assume a: "has_body_schema (rm_handler m) \<and> parseBody h req = (Inr r, t) \<and> error r = Some e'"
  with initial_context_parse_error [of m h req r t e' v il]
  show "\<exists>c0 t0 fs iss es.
           initial_context h (Some v) m req il = (Inr c0, t0)
           \<and> input c0 =
               InputErr (fs @ [Body]) (iss @ [invalid_json_issue])
                 \<lparr>params = rm_params m, query = parseQuery h (req_url req),
                  body = JUndefined\<rparr>
                 (Some (es @ [(Body, JErr e')]))"
    by blast
next
  assume hb: "has_body_schema (rm_handler m)"
  from has_body_schema_Some [OF hb] obtain s where "schemas (rm_handler m) = Some s" by blast
  from initial_context_no_validator [OF this, of h req il] hb
  show "initial_context h None m req il =
      (Inl (Thrown validator_required None), snd (parseBody h req))"
    by simp
qed

theorem parseBody_never_throws_witness:
  "parseBody ex_host
     (ex_request ''POST'' ''http://localhost/data'' (BodyFails (TypeError ''Body is unusable'')))
   = (Inr \<lparr>parsed = JUndefined, error = Some (SyntaxError ''Invalid JSON'')\<rparr>, [BodyRead])
   \<and> has_body_schema ex_body_route
   \<and> (\<exists>c0 t0 fs iss es.
        initial_context ex_host (Some ex_validator)
          \<lparr>rm_handler = ex_body_route, rm_params = []\<rparr>
          (ex_request ''POST'' ''http://localhost/data'' (BodyFails (TypeError ''Body is unusable'')))
          Map.empty = (Inr c0, t0)
        \<and> input c0 =
            InputErr (fs @ [Body]) (iss @ [invalid_json_issue])
              \<lparr>params = [], query = [], body = JUndefined\<rparr>
              (Some (es @ [(Body, JErr (SyntaxError ''Invalid JSON''))])))
   \<and> initial_context ex_host None \<lparr>rm_handler = ex_body_route, rm_params = []\<rparr>
       (ex_request ''POST'' ''http://localhost/data'' (BodyFails (TypeError ''Body is unusable'')))
       Map.empty
     = (Inl (Thrown validator_required None), [BodyRead])"
proof -
  let ?req = "ex_request ''POST'' ''http://localhost/data'' (BodyFails (TypeError ''Body is unusable''))"
  let ?m = "\<lparr>rm_handler = ex_body_route, rm_params = []\<rparr>"
  let ?r = "\<lparr>parsed = JUndefined, error = Some (SyntaxError ''Invalid JSON'')\<rparr>"
  note T = parseBody_never_throws [of ex_host ?req "TypeError ''Body is unusable''" _ _ ?r
      "[BodyRead]" "SyntaxError ''Invalid JSON''" ?m ex_validator Map.empty]
  have b: "req_body ?req = BodyFails (TypeError ''Body is unusable'')" "req_body ?req \<noteq> NoBody"
    by (simp_all add: ex_request_def)
  from T b have "parseBody_try ex_host ?req = Inl (TypeError ''Body is unusable'')" by blast
  with T b have p: "parseBody ex_host ?req = (Inr ?r, [BodyRead])" by simp
  have hb: "has_body_schema ex_body_route"
    by (simp add: has_body_schema_def ex_body_route_def ex_route_def)
  have q: "parseQuery ex_host (req_url ?req) = []" by (simp add: parseQuery_def ex_host_def)
  from T p hb have "\<exists>c0 t0 fs iss es.
           initial_context ex_host (Some ex_validator) ?m ?req Map.empty = (Inr c0, t0)
           \<and> input c0 =
               InputErr (fs @ [Body]) (iss @ [invalid_json_issue])
                 \<lparr>params = rm_params ?m, query = parseQuery ex_host (req_url ?req),
                  body = JUndefined\<rparr>
                 (Some (es @ [(Body, JErr (SyntaxError ''Invalid JSON''))]))"
    by simp
  then have "\<exists>c0 t0 fs iss es.
           initial_context ex_host (Some ex_validator) ?m ?req Map.empty = (Inr c0, t0)
           \<and> input c0 =
               InputErr (fs @ [Body]) (iss @ [invalid_json_issue])
                 \<lparr>params = [], query = [], body = JUndefined\<rparr>
                 (Some (es @ [(Body, JErr (SyntaxError ''Invalid JSON''))]))"
    by (simp add: q)
  moreover from T hb have "initial_context ex_host None ?m ?req Map.empty =
      (Inl (Thrown validator_required None), snd (parseBody ex_host ?req))"
    by simp
  then have "initial_context ex_host None ?m ?req Map.empty =
      (Inl (Thrown validator_required None), [BodyRead])"
    by (simp add: p)
  ultimately show ?thesis using p hb by blast
qed

text \<open>
  C10 as stated fails: on a route with a body schema in an application with no adapter,
  a body whose read fails is captured by \<^verbatim>\<open>parseBody\<close> as the SyntaxError, yet no issue
  comes of it: the validation throws the missing-validator error, and the request ends
  at the error boundary with status 500, the handler never called.
\<close>

theorem body_failure_without_adapter_counterexample:
  "has_body_schema ex_body_route
   \<and> match ex_host (setup_handlers (HandlerArray [ex_body_route])) ''POST''
       ''http://localhost/data'' = Some \<lparr>rm_handler = ex_body_route, rm_params = []\<rparr>
   \<and> setup_validator (HandlerArray [ex_body_route]) = None
   \<and> parseBody ex_host
       (ex_request ''POST'' ''http://localhost/data'' (BodyFails (TypeError ''Body is unusable'')))
     = (Inr \<lparr>parsed = JUndefined, error = Some (SyntaxError ''Invalid JSON'')\<rparr>, [BodyRead])
   \<and> handle ex_host [ex_body_route] None
       (ex_request ''POST'' ''http://localhost/data'' (BodyFails (TypeError ''Body is unusable'')))
       Map.empty
     = (Inl (Thrown validator_required None), [BodyRead])
   \<and> fetch ex_host (HandlerArray [ex_body_route])
       (ex_request ''POST'' ''http://localhost/data'' (BodyFails (TypeError ''Body is unusable'')))
     = (Inr \<lparr>status = 500,
             resp_body = JsonBody (JObj [(''error'', JStr ''Internal Server Error'')])\<rparr>,
        [BodyRead,
         OnErrorCalled validator_required
           \<lparr>request = ex_request ''POST'' ''http://localhost/data''
                        (BodyFails (TypeError ''Body is unusable'')),
            raw = \<lparr>params = [], query = [], body = JUndefined\<rparr>,
            input = InputOk (JObj []) (JObj []) JUndefined,
            locals = Map.empty\<rparr>])"
proof -
  let ?req = "ex_request ''POST'' ''http://localhost/data'' (BodyFails (TypeError ''Body is unusable''))"
  have hb: "has_body_schema ex_body_route"
    by (simp add: has_body_schema_def ex_body_route_def ex_route_def)
  have m: "match ex_host (setup_handlers (HandlerArray [ex_body_route])) ''POST''
       ''http://localhost/data'' = Some \<lparr>rm_handler = ex_body_route, rm_params = []\<rparr>"
    by (simp add: setup_handlers_def ex_body_route_def ex_route_def ex_host_def copy_groups_def)
  have v: "setup_validator (HandlerArray [ex_body_route]) = None"
    by (simp add: setup_validator_def)
  have p: "parseBody ex_host ?req
     = (Inr \<lparr>parsed = JUndefined, error = Some (SyntaxError ''Invalid JSON'')\<rparr>, [BodyRead])"
    by (simp add: parseBody_def parseBody_try_def ex_request_def)
  have h: "handle ex_host [ex_body_route] None ?req Map.empty
     = (Inl (Thrown validator_required None), [BodyRead])"
  proof -
    have m': "match ex_host [ex_body_route] (req_method ?req) (req_url ?req)
        = Some \<lparr>rm_handler = ex_body_route, rm_params = []\<rparr>"
      using m by (simp add: setup_handlers_def ex_request_def)
    have s: "schemas (rm_handler \<lparr>rm_handler = ex_body_route, rm_params = []\<rparr>) =
        Some \<lparr>schemas_params = None, schemas_query = None,
              schemas_body = Some (Schema ''accept'')\<rparr>"
      by (simp add: ex_body_route_def ex_route_def)
    from handle_no_validator [OF m' s, of Map.empty] hb p show ?thesis by simp
  qed
  have f: "fetch ex_host (HandlerArray [ex_body_route]) ?req
     = (Inr \<lparr>status = 500,
             resp_body = JsonBody (JObj [(''error'', JStr ''Internal Server Error'')])\<rparr>,
        [BodyRead,
         OnErrorCalled validator_required
           \<lparr>request = ?req,
            raw = \<lparr>params = [], query = [], body = JUndefined\<rparr>,
            input = InputOk (JObj []) (JObj []) JUndefined,
            locals = Map.empty\<rparr>])"
    by (simp add: fetch_def fetch_try_def h setup_handlers_def setup_validator_def
        setup_onRequest_def setup_onResponse_def setup_onError_def defaultOnError_def)
  from hb m v p h f show ?thesis by blast
qed

text \<open>
  C7. With declared schemas and no adapter \<^verbatim>\<open>validateInputs\<close> throws; the dispatcher
  throws the same error, with no context; the wrapper hands an error (that one, unless
  the pre-routing hook threw first) and the minimal context to the error boundary, whose
  result is the result of the request, and the handler is never called; the default
  boundary answers with status 500.
\<close>

theorem missing_validator_is_error:
  "validateInputs None (Some s) rawv perr = (Inl validator_required, [])
   \<and> (match h routes (req_method req) (req_url req) = Some m
        \<and> schemas (rm_handler m) = Some s
      \<longrightarrow> fst (handle h routes None req il) = Inl (Thrown validator_required None))
   \<and> (setup_validator cfg = None
        \<and> match h (setup_handlers cfg) (req_method req) (req_url req) = Some m
        \<and> schemas (rm_handler m) = Some s
      \<longrightarrow> fst (fetch h cfg req) =
            setup_onError cfg
              (case initial_locals cfg req of Inl e \<Rightarrow> e | Inr il \<Rightarrow> validator_required)
              \<lparr>request = req,
               raw = \<lparr>params = [], query = [], body = JUndefined\<rparr>,
               input = InputOk (JObj []) (JObj []) JUndefined,
               locals = Map.empty\<rparr>
          \<and> last (snd (fetch h cfg req)) =
            OnErrorCalled
              (case initial_locals cfg req of Inl e \<Rightarrow> e | Inr il \<Rightarrow> validator_required)
              \<lparr>request = req,
               raw = \<lparr>params = [], query = [], body = JUndefined\<rparr>,
               input = InputOk (JObj []) (JObj []) JUndefined,
               locals = Map.empty\<rparr>
          \<and> (\<forall>c. HandlerCalled c \<notin> set (snd (fetch h cfg req)))
          \<and> (setup_onError cfg = defaultOnError \<longrightarrow>
                fst (fetch h cfg req) =
                  Inr \<lparr>status = 500,
                       resp_body = JsonBody (JObj [(''error'', JStr ''Internal Server Error'')])\<rparr>))"
proof (intro conjI impI allI)
  show "validateInputs None (Some s) rawv perr = (Inl validator_required, [])"
    by (rule validateInputs_no_validator)
next
  assume "match h routes (req_method req) (req_url req) = Some m
        \<and> schemas (rm_handler m) = Some s"
  then show "fst (handle h routes None req il) = Inl (Thrown validator_required None)"
    using handle_no_validator [of h routes req m s il] by simp
next
  assume a: "setup_validator cfg = None
        \<and> match h (setup_handlers cfg) (req_method req) (req_url req) = Some m
        \<and> schemas (rm_handler m) = Some s"
  let ?err = "case initial_locals cfg req of Inl e \<Rightarrow> e | Inr il \<Rightarrow> validator_required"
  let ?c = "\<lparr>request = req,
               raw = \<lparr>params = [], query = [], body = JUndefined\<rparr>,
               input = InputOk (JObj []) (JObj []) JUndefined,
               locals = Map.empty\<rparr>"
  from a fetch_no_validator [of cfg h req m s] obtain t where
    f: "fetch h cfg req = (setup_onError cfg ?err ?c, t @ [OnErrorCalled ?err ?c])"
    and t: "\<forall>e \<in> set t. e = OnRequestCalled \<or> e = BodyRead"
    by blast
  from f show "fst (fetch h cfg req) = setup_onError cfg ?err ?c" by simp
  from f show "last (snd (fetch h cfg req)) = OnErrorCalled ?err ?c" by simp
  from f t show "HandlerCalled c \<notin> set (snd (fetch h cfg req))" for c by auto
  assume "setup_onError cfg = defaultOnError"
  with f show "fst (fetch h cfg req) =
                  Inr \<lparr>status = 500,
                       resp_body = JsonBody (JObj [(''error'', JStr ''Internal Server Error'')])\<rparr>"
    by (simp add: defaultOnError_def)
qed

theorem missing_validator_is_error_witness:
  "setup_validator (HandlerArray [ex_body_route]) = None
   \<and> match ex_host (setup_handlers (HandlerArray [ex_body_route])) ''POST''
       ''http://localhost/data'' = Some \<lparr>rm_handler = ex_body_route, rm_params = []\<rparr>
   \<and> schemas ex_body_route =
       Some \<lparr>schemas_params = None, schemas_query = None,
             schemas_body = Some (Schema ''accept'')\<rparr>
   \<and> fst (fetch ex_host (HandlerArray [ex_body_route])
        (ex_request ''POST'' ''http://localhost/data'' (BodyText ''[1]'')))
     = Inr \<lparr>status = 500,
            resp_body = JsonBody (JObj [(''error'', JStr ''Internal Server Error'')])\<rparr>"
proof -
  let ?cfg = "HandlerArray [ex_body_route]"
  let ?req = "ex_request ''POST'' ''http://localhost/data'' (BodyText ''[1]'')"
  let ?m = "\<lparr>rm_handler = ex_body_route, rm_params = []\<rparr>"
  let ?s = "\<lparr>schemas_params = None, schemas_query = None, schemas_body = Some (Schema ''accept'')\<rparr>"
  have v: "setup_validator ?cfg = None" by (simp add: setup_validator_def)
  have m: "match ex_host (setup_handlers ?cfg) ''POST'' ''http://localhost/data'' = Some ?m"
    by (simp add: setup_handlers_def ex_body_route_def ex_route_def ex_host_def copy_groups_def)
  then have m': "match ex_host (setup_handlers ?cfg) (req_method ?req) (req_url ?req) = Some ?m"
    by (simp add: ex_request_def)
  have s: "schemas ex_body_route = Some ?s" by (simp add: ex_body_route_def ex_route_def)
  then have s': "schemas (rm_handler ?m) = Some ?s" by simp
  have d: "setup_onError ?cfg = defaultOnError" by (simp add: setup_onError_def)
  from missing_validator_is_error
    [of ?s "\<lparr>params = [], query = [], body = JUndefined\<rparr>" None ex_host "[]" ?req ?m
      Map.empty ?cfg] v m' s' d
  have "fst (fetch ex_host ?cfg ?req) =
      Inr \<lparr>status = 500,
           resp_body = JsonBody (JObj [(''error'', JStr ''Internal Server Error'')])\<rparr>"
    by blast
  with v m s show ?thesis by blast
qed

text \<open>
  C8, as the code has it. With a response hook configured, when the pre-routing hook and
  the dispatcher return, the hook is called with the dispatcher's context and response,
  and the response it returns is the final one; without a hook the dispatcher's response
  is final. The dispatcher returns a context with every response: when no route matches
  it is the minimal context, so the hook is called on the 404 response too and its
  result replaces it.
\<close>

theorem response_hook_on_every_dispatch:
  "(setup_onResponse cfg = Some f \<and> initial_locals cfg req = Inr il
      \<and> handle h (setup_handlers cfg) (setup_validator cfg) req il = (Inr rr, t1)
      \<and> f (rr_context rr) (rr_response rr) = Inr resp'
    \<longrightarrow> fetch h cfg req =
          (Inr resp',
           (if setup_onRequest cfg = None then [] else [OnRequestCalled]) @ t1
             @ [OnResponseCalled (rr_context rr) (rr_response rr)]))
   \<and> (setup_onResponse cfg = None \<and> initial_locals cfg req = Inr il
      \<and> handle h (setup_handlers cfg) (setup_validator cfg) req il = (Inr rr, t1)
    \<longrightarrow> fetch h cfg req =
          (Inr (rr_response rr),
           (if setup_onRequest cfg = None then [] else [OnRequestCalled]) @ t1))
   \<and> (setup_onResponse cfg = Some f \<and> initial_locals cfg req = Inr il
      \<and> match h (setup_handlers cfg) (req_method req) (req_url req) = None
      \<and> f \<lparr>request = req,
            raw = \<lparr>params = [], query = [], body = JUndefined\<rparr>,
            input = InputOk (JObj []) (JObj []) JUndefined,
            locals = Map.empty\<rparr>
           \<lparr>status = 404, resp_body = TextBody ''Not Found''\<rparr> = Inr resp'
    \<longrightarrow> fetch h cfg req =
          (Inr resp',
           (if setup_onRequest cfg = None then [] else [OnRequestCalled])
             @ [OnResponseCalled
                  \<lparr>request = req,
                   raw = \<lparr>params = [], query = [], body = JUndefined\<rparr>,
                   input = InputOk (JObj []) (JObj []) JUndefined,
                   locals = Map.empty\<rparr>
                  \<lparr>status = 404, resp_body = TextBody ''Not Found''\<rparr>]))"
proof (intro conjI impI)
  assume "setup_onResponse cfg = Some f \<and> initial_locals cfg req = Inr il
      \<and> handle h (setup_handlers cfg) (setup_validator cfg) req il = (Inr rr, t1)
      \<and> f (rr_context rr) (rr_response rr) = Inr resp'"
  then show "fetch h cfg req =
          (Inr resp',
           (if setup_onRequest cfg = None then [] else [OnRequestCalled]) @ t1
             @ [OnResponseCalled (rr_context rr) (rr_response rr)])"
    using fetch_with_response_hook [of cfg f req il h rr t1 resp'] by blast
next
  assume "setup_onResponse cfg = None \<and> initial_locals cfg req = Inr il
      \<and> handle h (setup_handlers cfg) (setup_validator cfg) req il = (Inr rr, t1)"
  then show "fetch h cfg req =
          (Inr (rr_response rr),
           (if setup_onRequest cfg = None then [] else [OnRequestCalled]) @ t1)"
    using fetch_without_response_hook [of cfg req il h rr t1] by blast
next
  let ?c = "\<lparr>request = req,
            raw = \<lparr>params = [], query = [], body = JUndefined\<rparr>,
            input = InputOk (JObj []) (JObj []) JUndefined,
            locals = Map.empty\<rparr>"
  let ?nf = "\<lparr>status = 404, resp_body = TextBody ''Not Found''\<rparr>"
  assume a: "setup_onResponse cfg = Some f \<and> initial_locals cfg req = Inr il
      \<and> match h (setup_handlers cfg) (req_method req) (req_url req) = None
      \<and> f ?c ?nf = Inr resp'"
  then have "handle h (setup_handlers cfg) (setup_validator cfg) req il =
      (Inr \<lparr>rr_response = ?nf, rr_context = ?c\<rparr>, [])"
    by (simp add: handle_not_found)
  from fetch_with_response_hook [OF _ _ this, of f resp'] a
  show "fetch h cfg req =
          (Inr resp',
           (if setup_onRequest cfg = None then [] else [OnRequestCalled])
             @ [OnResponseCalled ?c ?nf])"
    by simp
qed

theorem response_hook_on_every_dispatch_witness:
  "setup_onResponse ex_empty_app = Some ex_on_response
   \<and> initial_locals ex_empty_app (ex_request ''GET'' ''http://localhost/missing'' NoBody)
       = Inr Map.empty
   \<and> match ex_host (setup_handlers ex_empty_app) ''GET'' ''http://localhost/missing'' = None
   \<and> fst (fetch ex_host ex_empty_app (ex_request ''GET'' ''http://localhost/missing'' NoBody))
       = Inr \<lparr>status = 200, resp_body = TextBody ''Not Found''\<rparr>"
proof -
  let ?req = "ex_request ''GET'' ''http://localhost/missing'' NoBody"
  let ?c = "\<lparr>request = ?req,
            raw = \<lparr>params = [], query = [], body = JUndefined\<rparr>,
            input = InputOk (JObj []) (JObj []) JUndefined,
            locals = Map.empty\<rparr>"
  let ?nf = "\<lparr>status = 404, resp_body = TextBody ''Not Found''\<rparr>"
  let ?r = "\<lparr>status = 200, resp_body = TextBody ''Not Found''\<rparr>"
  have f: "setup_onResponse ex_empty_app = Some ex_on_response"
    by (simp add: setup_onResponse_def ex_empty_app_def)
  have il: "initial_locals ex_empty_app ?req = Inr Map.empty"
    by (simp add: initial_locals_def setup_onRequest_def ex_empty_app_def)
  have m: "match ex_host (setup_handlers ex_empty_app) ''GET'' ''http://localhost/missing'' = None"
    by (simp add: setup_handlers_def ex_empty_app_def)
  then have m': "match ex_host (setup_handlers ex_empty_app) (req_method ?req) (req_url ?req) = None"
    by (simp add: ex_request_def)
  have r: "ex_on_response ?c ?nf = Inr ?r" by (simp add: ex_on_response_def)
  from response_hook_on_every_dispatch
    [of ex_empty_app ex_on_response ?req Map.empty ex_host
      "\<lparr>rr_response = ?nf, rr_context = ?c\<rparr>" "[]" ?r] f il m' r
  have "fetch ex_host ex_empty_app ?req =
          (Inr ?r,
           (if setup_onRequest ex_empty_app = None then [] else [OnRequestCalled])
             @ [OnResponseCalled ?c ?nf])"
    by blast
  then have "fst (fetch ex_host ex_empty_app ?req) = Inr ?r" by simp
  with f il m show ?thesis by blast
qed

text \<open>
  C8 as the specification states it fails: with no route at all and a response hook
  that sets the status to 200, the request ends with status 200, and the hook was called
  with the minimal context and the 404 response.
\<close>

theorem response_hook_skipped_on_not_found_counterexample:
  "match ex_host (setup_handlers ex_empty_app) ''GET'' ''http://localhost/missing'' = None
   \<and> fetch ex_host ex_empty_app (ex_request ''GET'' ''http://localhost/missing'' NoBody)
     = (Inr \<lparr>status = 200, resp_body = TextBody ''Not Found''\<rparr>,
        [OnResponseCalled
           \<lparr>request = ex_request ''GET'' ''http://localhost/missing'' NoBody,
            raw = \<lparr>params = [], query = [], body = JUndefined\<rparr>,
            input = InputOk (JObj []) (JObj []) JUndefined,
            locals = Map.empty\<rparr>
           \<lparr>status = 404, resp_body = TextBody ''Not Found''\<rparr>])
   \<and> fst (fetch ex_host ex_empty_app (ex_request ''GET'' ''http://localhost/missing'' NoBody))
     \<noteq> Inr \<lparr>status = 404, resp_body = TextBody ''Not Found''\<rparr>"
  by (simp add: fetch_def fetch_try_def handle_def setup_handlers_def setup_validator_def
      setup_onError_def setup_onRequest_def setup_onResponse_def ex_empty_app_def
      ex_on_response_def ex_request_def not_found_def)

text \<open>
  C9. The two contexts the framework makes up itself, the one returned with the 404
  response and the one handed to the error boundary when the thrown error carries none,
  have empty raw params and query, an undefined raw body, no locals, and the success
  variant as input state; the first is what the response hook is called with when no
  route matches, the second what the error boundary is called with, for example when the
  pre-routing hook throws.
\<close>

theorem synthesized_contexts_are_minimal:
  "(match h routes (req_method req) (req_url req) = None \<longrightarrow>
      handle h routes v req il =
        (Inr \<lparr>rr_response = \<lparr>status = 404, resp_body = TextBody ''Not Found''\<rparr>,
              rr_context =
                \<lparr>request = req,
                 raw = \<lparr>params = [], query = [], body = JUndefined\<rparr>,
                 input = InputOk (JObj []) (JObj []) JUndefined,
                 locals = Map.empty\<rparr>\<rparr>,
         []))
   \<and> (fetch_try h (setup_handlers cfg) (setup_validator cfg) (setup_onRequest cfg)
         (setup_onResponse cfg) req = (Inl (Thrown err None), t) \<longrightarrow>
      fetch h cfg req =
        (setup_onError cfg err
           \<lparr>request = req,
            raw = \<lparr>params = [], query = [], body = JUndefined\<rparr>,
            input = InputOk (JObj []) (JObj []) JUndefined,
            locals = Map.empty\<rparr>,
         t @ [OnErrorCalled err
                \<lparr>request = req,
                 raw = \<lparr>params = [], query = [], body = JUndefined\<rparr>,
                 input = InputOk (JObj []) (JObj []) JUndefined,
                 locals = Map.empty\<rparr>]))
   \<and> (initial_locals cfg req = Inl err \<longrightarrow>
      fetch h cfg req =
        (setup_onError cfg err
           \<lparr>request = req,
            raw = \<lparr>params = [], query = [], body = JUndefined\<rparr>,
            input = InputOk (JObj []) (JObj []) JUndefined,
            locals = Map.empty\<rparr>,
         [OnRequestCalled,
          OnErrorCalled err
            \<lparr>request = req,
             raw = \<lparr>params = [], query = [], body = JUndefined\<rparr>,
             input = InputOk (JObj []) (JObj []) JUndefined,
             locals = Map.empty\<rparr>]))
   \<and> (match h (setup_handlers cfg) (req_method req) (req_url req) = None
        \<and> setup_onResponse cfg = Some f \<and> initial_locals cfg req = Inr il \<longrightarrow>
      OnResponseCalled
        \<lparr>request = req,
         raw = \<lparr>params = [], query = [], body = JUndefined\<rparr>,
         input = InputOk (JObj []) (JObj []) JUndefined,
         locals = Map.empty\<rparr>
        \<lparr>status = 404, resp_body = TextBody ''Not Found''\<rparr>
      \<in> set (snd (fetch h cfg req)))"
proof (intro conjI impI)
  assume "match h routes (req_method req) (req_url req) = None"
  then show "handle h routes v req il =
        (Inr \<lparr>rr_response = \<lparr>status = 404, resp_body = TextBody ''Not Found''\<rparr>,
              rr_context =
                \<lparr>request = req,
                 raw = \<lparr>params = [], query = [], body = JUndefined\<rparr>,
                 input = InputOk (JObj []) (JObj []) JUndefined,
                 locals = Map.empty\<rparr>\<rparr>,
         [])"
    by (rule handle_not_found)
next
  let ?c = "\<lparr>request = req,
            raw = \<lparr>params = [], query = [], body = JUndefined\<rparr>,
            input = InputOk (JObj []) (JObj []) JUndefined,
            locals = Map.empty\<rparr>"
  assume "fetch_try h (setup_handlers cfg) (setup_validator cfg) (setup_onRequest cfg)
         (setup_onResponse cfg) req = (Inl (Thrown err None), t)"
  from fetch_thrown [OF this]
  show "fetch h cfg req = (setup_onError cfg err ?c, t @ [OnErrorCalled err ?c])" by simp
next
  let ?c = "\<lparr>request = req,
            raw = \<lparr>params = [], query = [], body = JUndefined\<rparr>,
            input = InputOk (JObj []) (JObj []) JUndefined,
            locals = Map.empty\<rparr>"
  assume "initial_locals cfg req = Inl err"
  from fetch_thrown [OF fetch_try_hook_throws [OF this]]
  show "fetch h cfg req =
      (setup_onError cfg err ?c, [OnRequestCalled, OnErrorCalled err ?c])" by simp
next
  let ?c = "\<lparr>request = req,
            raw = \<lparr>params = [], query = [], body = JUndefined\<rparr>,
            input = InputOk (JObj []) (JObj []) JUndefined,
            locals = Map.empty\<rparr>"
  let ?nf = "\<lparr>status = 404, resp_body = TextBody ''Not Found''\<rparr>"
  assume a: "match h (setup_handlers cfg) (req_method req) (req_url req) = None
        \<and> setup_onResponse cfg = Some f \<and> initial_locals cfg req = Inr il"
  then have hd: "handle h (setup_handlers cfg) (setup_validator cfg) req il =
      (Inr \<lparr>rr_response = ?nf, rr_context = ?c\<rparr>, [])"
    by (simp add: handle_not_found)
  have "snd (fetch_try h (setup_handlers cfg) (setup_validator cfg) (setup_onRequest cfg)
         (setup_onResponse cfg) req) =
      (if setup_onRequest cfg = None then [] else [OnRequestCalled]) @ [OnResponseCalled ?c ?nf]"
    using a by (simp add: fetch_try_dispatch hd split: sum.split)
  then show "OnResponseCalled ?c ?nf \<in> set (snd (fetch h cfg req))"
    by (auto simp: fetch_def Let_def split: prod.splits sum.splits thrown.splits)
qed

theorem synthesized_contexts_are_minimal_witness:
  "match ex_host [] ''GET'' ''http://localhost/missing'' = None
   \<and> handle ex_host [] None (ex_request ''GET'' ''http://localhost/missing'' NoBody) Map.empty
     = (Inr \<lparr>rr_response = \<lparr>status = 404, resp_body = TextBody ''Not Found''\<rparr>,
             rr_context =
               \<lparr>request = ex_request ''GET'' ''http://localhost/missing'' NoBody,
                raw = \<lparr>params = [], query = [], body = JUndefined\<rparr>,
                input = InputOk (JObj []) (JObj []) JUndefined,
                locals = Map.empty\<rparr>\<rparr>,
        [])
   \<and> initial_locals ex_throwing_app (ex_request ''GET'' ''http://localhost/missing'' NoBody)
     = Inl (Error ''hook failed'')
   \<and> fetch ex_host ex_throwing_app (ex_request ''GET'' ''http://localhost/missing'' NoBody)
     = (Inr \<lparr>status = 500,
             resp_body = JsonBody (JObj [(''error'', JStr ''Internal Server Error'')])\<rparr>,
        [OnRequestCalled,
         OnErrorCalled (Error ''hook failed'')
           \<lparr>request = ex_request ''GET'' ''http://localhost/missing'' NoBody,
            raw = \<lparr>params = [], query = [], body = JUndefined\<rparr>,
            input = InputOk (JObj []) (JObj []) JUndefined,
            locals = Map.empty\<rparr>])"
proof -
  let ?req = "ex_request ''GET'' ''http://localhost/missing'' NoBody"
  let ?c = "\<lparr>request = ?req,
            raw = \<lparr>params = [], query = [], body = JUndefined\<rparr>,
            input = InputOk (JObj []) (JObj []) JUndefined,
            locals = Map.empty\<rparr>"
  note T = synthesized_contexts_are_minimal
    [of ex_host "[]" ?req None Map.empty ex_throwing_app "Error ''hook failed''" "[]"
      ex_on_response]
  have m: "match ex_host [] ''GET'' ''http://localhost/missing'' = None" by simp
  then have m': "match ex_host [] (req_method ?req) (req_url ?req) = None" by simp
  have il: "initial_locals ex_throwing_app ?req = Inl (Error ''hook failed'')"
    by (simp add: initial_locals_def setup_onRequest_def ex_throwing_app_def
        ex_on_request_throws_def)
  from T m' have h: "handle ex_host [] None ?req Map.empty =
      (Inr \<lparr>rr_response = \<lparr>status = 404, resp_body = TextBody ''Not Found''\<rparr>,
            rr_context = ?c\<rparr>, [])"
    by blast
  from T il have "fetch ex_host ex_throwing_app ?req =
      (setup_onError ex_throwing_app (Error ''hook failed'') ?c,
       [OnRequestCalled, OnErrorCalled (Error ''hook failed'') ?c])"
    by blast
  then have f: "fetch ex_host ex_throwing_app ?req =
      (Inr \<lparr>status = 500,
            resp_body = JsonBody (JObj [(''error'', JStr ''Internal Server Error'')])\<rparr>,
       [OnRequestCalled, OnErrorCalled (Error ''hook failed'') ?c])"
    by (simp add: setup_onError_def ex_throwing_app_def defaultOnError_def)
  from m h il f show ?thesis by blast
qed

end
